theory Spec2Isabelle
  imports Complex_Main
begin

section \<open>The perceptron ranker of tgen (\<^verbatim>\<open>src/tgen/rank.py\<close>)\<close>

text \<open>
  A shallow embedding of \<^verbatim>\<open>PerceptronRanker\<close>: the construction from a configuration,
  \<^verbatim>\<open>_init_training\<close>, \<^verbatim>\<open>_get_rival_candidates\<close>, \<^verbatim>\<open>_training_iter\<close> and \<^verbatim>\<open>train\<close>.

  Conventions of the model.
  \<^item> A float64 number is a value of the type variable \<open>'n\<close>, which has \<open>+\<close>, \<open>-\<close>, \<open>*\<close>,
    \<open>1\<close> and \<open><\<close> and no law about them: what is proved holds for the rounded
    arithmetic of float64 as it does for exact arithmetic, and the examples are run on
    real numbers at values where the two agree. \<^verbatim>\<open>x > y\<close> is \<open>y < x\<close>, and \<^verbatim>\<open>==\<close> on
    numbers is equality. \<^verbatim>\<open>numpy.dot\<close> is an input of the model (\<open>np_dot\<close>): the source
    does not fix the order in which it sums.
  \<^item> The costs in the planner's lists and the values of a feature dictionary are only
    handed on, never computed with; they are real numbers.
  \<^item> A one-dimensional array is a list. Every feature vector of a fitted ranker has the
    dimension fixed at fit time, so the elementwise operations are written with
    \<open>zip\<close>; numpy's shape errors are not modelled.
  \<^item> \<^verbatim>\<open>data_portion\<close> is the real number that the float64 argument stands for, and its
    product with the corpus size is rounded to float64 (\<open>float64_round\<close>).
  \<^item> A configuration key is absent or has a value; a key given the value \<^verbatim>\<open>None\<close> is
    not modelled.
  \<^item> Trees and dialogue acts are values of the type variables \<open>'t\<close> and \<open>'d\<close>; Python's
    \<^verbatim>\<open>!=\<close> on trees is HOL's inequality.
  \<^item> A Python exception is a value of \<open>error\<close>; a call ends in \<open>Return v s\<close> or in
    \<open>Raise e s\<close>, where \<open>s\<close> is the ranker object at that moment.
  \<^item> A call that may run forever has an \<open>option\<close> result, and \<open>None\<close> is not returning.
  \<^item> What the random number generator and the planners answer is an input of the model
    (the record \<open>draws\<close>), so that a theorem holds for every answer.
  \<^item> A method keeps its name without the leading underscore; \<^verbatim>\<open>_score\<close> is
    \<open>score_feats\<close>. Logging, the clock, and the reports that close a pass
    (\<^verbatim>\<open>p_r_f1\<close>, \<^verbatim>\<open>stats\<close>) are left out: they change nothing the ranker holds.
\<close>

subsection \<open>Python values\<close>

datatype error = ValueError | IndexError | AttributeError | AssertionError | ZeroDivisionError

datatype ('a, 's) outcome = Return 'a 's | Raise error 's

text \<open>An attribute of the object: never assigned, assigned \<^verbatim>\<open>None\<close>, or assigned an object.\<close>

datatype 'a pyattr = NoAttr | PyNone | Obj 'a

text \<open>\<^verbatim>\<open>xs[i]\<close> for an index from \<^verbatim>\<open>xrange\<close> (never negative).\<close>

definition py_getitem :: "'a list \<Rightarrow> nat \<Rightarrow> error + 'a" where
  "py_getitem xs i = (if i < length xs then Inr (xs ! i) else Inl IndexError)"

text \<open>\<^verbatim>\<open>[xs[i] for i in idxs]\<close>: the first index out of range raises.\<close>

fun py_getitems :: "'a list \<Rightarrow> nat list \<Rightarrow> error + 'a list" where
  "py_getitems xs [] = Inr []"
| "py_getitems xs (i # idxs) =
     (case py_getitem xs i of
        Inl e \<Rightarrow> Inl e
      | Inr x \<Rightarrow> (case py_getitems xs idxs of Inl e \<Rightarrow> Inl e | Inr ys \<Rightarrow> Inr (x # ys)))"

text \<open>\<^verbatim>\<open>xs[:n]\<close>: a negative bound counts from the end.\<close>

definition py_slice_to :: "'a list \<Rightarrow> int \<Rightarrow> 'a list" where
  "py_slice_to xs n = (if 0 \<le> n then take (nat n) xs else take (nat (int (length xs) + n)) xs)"

text \<open>
  \<^verbatim>\<open>max(xs)\<close> raises \<^verbatim>\<open>ValueError\<close> on an empty sequence. Otherwise it starts with the
  first element and replaces the element it holds by each later one that is \<^verbatim>\<open>>\<close> it.
\<close>

fun py_max :: "'n::ord list \<Rightarrow> error + 'n" where
  "py_max [] = Inl ValueError"
| "py_max (x # xs) = Inr (foldl (\<lambda>m y. if m < y then y else m) x xs)"

text \<open>\<^verbatim>\<open>xs.index(v)\<close>: the first position holding \<open>v\<close>, \<^verbatim>\<open>ValueError\<close> when there is none.\<close>

fun py_index :: "'a list \<Rightarrow> 'a \<Rightarrow> error + nat" where
  "py_index [] v = Inl ValueError"
| "py_index (x # xs) v =
     (if x = v then Inr 0
      else (case py_index xs v of Inl e \<Rightarrow> Inl e | Inr i \<Rightarrow> Inr (Suc i)))"

text \<open>
  The float64 number nearest to a real number, ties to the even significand: 53 bits
  in the normal range, multiples of \<open>2 powr -1074\<close> below it. A result beyond the
  largest float64 number (\<^verbatim>\<open>inf\<close>) is not modelled.
\<close>

definition float64_round :: "real \<Rightarrow> real" where
  "float64_round x =
     (if x = 0 then 0
      else (let e = max \<lfloor>log 2 \<bar>x\<bar>\<rfloor> (- 1022);
                ulp = 2 powr (real_of_int e - 52);
                q = x / ulp;
                f = \<lfloor>q\<rfloor>;
                d = q - real_of_int f
            in real_of_int (if d < 1 / 2 then f
                            else if 1 / 2 < d then f + 1
                            else if even f then f else f + 1) * ulp))"

text \<open>\<^verbatim>\<open>int(round(x))\<close> of Python 2: halves are rounded away from zero.\<close>

definition py_round :: "real \<Rightarrow> int" where
  "py_round x = (if 0 \<le> x then \<lfloor>x + 1 / 2\<rfloor> else \<lceil>x - 1 / 2\<rceil>)"

subsection \<open>numpy vectors\<close>

type_synonym 'n vec = "'n list"

text \<open>\<^verbatim>\<open>a + b\<close>, \<^verbatim>\<open>a - b\<close> and \<^verbatim>\<open>c * a\<close> on arrays work element by element.\<close>

definition np_add :: "'n::plus vec \<Rightarrow> 'n vec \<Rightarrow> 'n vec" where
  "np_add a b = map (\<lambda>(x, y). x + y) (zip a b)"

definition np_sub :: "'n::minus vec \<Rightarrow> 'n vec \<Rightarrow> 'n vec" where
  "np_sub a b = map (\<lambda>(x, y). x - y) (zip a b)"

definition np_scale :: "'n::times \<Rightarrow> 'n vec \<Rightarrow> 'n vec" where
  "np_scale c a = map (\<lambda>x. c * x) a"

definition np_ones :: "nat \<Rightarrow> 'n::one vec" where
  "np_ones n = replicate n 1"

subsection \<open>The ranker object\<close>

text \<open>
  The configuration dictionary \<^verbatim>\<open>cfg\<close>: a key that is absent is \<open>None\<close>. The keys
  \<^verbatim>\<open>language\<close>, \<^verbatim>\<open>selector\<close>, \<^verbatim>\<open>rival_gen_max_iter\<close>, \<^verbatim>\<open>rival_gen_max_defic_iter\<close> and
  \<^verbatim>\<open>rival_gen_beam_size\<close> are only handed on to the corpus readers and the planners,
  which are inputs of the model, and are left out. \<^verbatim>\<open>rival_number\<close> is a count.
\<close>

record 'n cfg =
  cfg_alpha :: "'n option"
  cfg_passes :: "int option"
  cfg_rival_number :: "nat option"
  cfg_rival_gen_strategy :: "string list option"
  cfg_candgen_model :: "string option"
  cfg_features :: "string list option"

text \<open>The attributes that \<^verbatim>\<open>__init__\<close> assigns: the object before training.\<close>

record 'n hyper =
  alpha :: 'n
  passes :: int
  rival_number :: nat
  rival_gen_strategy :: "string list"
  candgen_model :: "string option"
  feats :: "string list"

definition cfg_get :: "'a option \<Rightarrow> 'a \<Rightarrow> 'a" where
  "cfg_get v dflt = (case v of None \<Rightarrow> dflt | Some x \<Rightarrow> x)"

definition PerceptronRanker :: "'n::one cfg \<Rightarrow> 'n hyper" where
  "PerceptronRanker c =
     \<lparr>alpha = cfg_get (cfg_alpha c) 1,
      passes = cfg_get (cfg_passes c) 5,
      rival_number = cfg_get (cfg_rival_number c) 10,
      rival_gen_strategy = cfg_get (cfg_rival_gen_strategy c) [''other_inst''],
      candgen_model = cfg_candgen_model c,
      feats = ''bias: bias'' # cfg_get (cfg_features c) []\<rparr>"

text \<open>
  The object once \<^verbatim>\<open>_init_training\<close> has returned. \<open>pipeline\<close> is the fitted vectorizer
  with the fitted normalizer. \<open>candgen\<close>, \<open>sampling_planner\<close> and \<open>asearch_planner\<close> are
  assigned only under a condition, so they may be absent. \<open>evaluator\<close> and
  \<open>lists_analyzer\<close> hold what has been appended to them since their last reset.
\<close>

type_synonym 't cand_list = "('t \<times> real) list"

record ('t, 'd, 'm, 'n) ranker = "'n hyper" +
  w :: "'n vec"
  pipeline :: 'm
  train_trees :: "'t list"
  train_das :: "'d list"
  train_feats :: "'n vec list"
  candgen :: "string pyattr"
  sampling_planner :: "unit pyattr"
  asearch_planner :: "unit pyattr"
  evaluator :: "('t \<times> 't) list"
  lists_analyzer :: "('t \<times> 't cand_list \<times> 't cand_list) list"

text \<open>
  The collaborators of the feature pipeline, which are not part of \<^verbatim>\<open>rank.py\<close>:
  \<^verbatim>\<open>Features.get_features\<close> for a list of feature templates, the joint
  \<^verbatim>\<open>fit_transform\<close> of vectorizer and normalizer (the fitted pair, the rows of the
  matrix and its number of columns), and their joint \<^verbatim>\<open>transform\<close> of one dictionary.
  With them \<^verbatim>\<open>numpy.dot\<close> on two one-dimensional arrays.
\<close>

type_synonym feat_dict = "string \<Rightarrow> real option"

record ('t, 'd, 'm, 'n) collab =
  get_features :: "string list \<Rightarrow> 't \<Rightarrow> 'd \<Rightarrow> feat_dict"
  fit_transform :: "feat_dict list \<Rightarrow> 'm \<times> 'n vec list \<times> nat"
  transform :: "'m \<Rightarrow> feat_dict \<Rightarrow> 'n vec"
  np_dot :: "'n vec \<Rightarrow> 'n vec \<Rightarrow> 'n"

text \<open>
  What the environment answers during one call of \<^verbatim>\<open>_get_rival_candidates\<close>:
  the list \<^verbatim>\<open>random.sample\<close> returns, the tree the \<open>i\<close>-th call of
  \<^verbatim>\<open>sampling_planner.generate_tree\<close> returns, and the pair of lists
  \<^verbatim>\<open>asearch_planner.run\<close> returns.
\<close>

record 't draws =
  sampled :: "nat list"
  generated :: "nat \<Rightarrow> 't"
  searched :: "'t cand_list \<times> 't cand_list"

subsection \<open>Scoring\<close>

definition score_feats ::
  "('t, 'd, 'm, 'n) collab \<Rightarrow> ('t, 'd, 'm, 'n) ranker \<Rightarrow> 'n vec \<Rightarrow> 'n" where
  "score_feats E r cand_feats = np_dot E (w r) cand_feats"

definition extract_feats ::
  "('t, 'd, 'm, 'n) collab \<Rightarrow> ('t, 'd, 'm, 'n) ranker \<Rightarrow> 't \<Rightarrow> 'd \<Rightarrow> 'n vec" where
  "extract_feats E r ttree da = transform E (pipeline r) (get_features E (feats r) ttree da)"

definition score ::
  "('t, 'd, 'm, 'n) collab \<Rightarrow> ('t, 'd, 'm, 'n) ranker \<Rightarrow> 't \<Rightarrow> 'd \<Rightarrow> 'n" where
  "score E r cand_ttree da = score_feats E r (extract_feats E r cand_ttree da)"

subsection \<open>Initialization of training\<close>

text \<open>
  \<^verbatim>\<open>_init_training\<close>, from the dialogue acts and trees the corpus readers return.
  A constructed object has no attribute \<^verbatim>\<open>candgen\<close>; it gets one only when
  \<^verbatim>\<open>candgen_model\<close> is set. Reading an absent attribute raises \<^verbatim>\<open>AttributeError\<close>,
  and this happens before the \<^verbatim>\<open>assert\<close> compares the value with \<^verbatim>\<open>None\<close>.
\<close>

definition init_training ::
  "('t, 'd, 'm, 'n::one) collab \<Rightarrow> 'n hyper \<Rightarrow> 'd list \<Rightarrow> 't list \<Rightarrow> real
     \<Rightarrow> error + ('t, 'd, 'm, 'n) ranker" where
  "init_training E h das ttrees data_portion =
     (let train_size = py_round (float64_round (data_portion * real (length ttrees)));
          trees = py_slice_to ttrees train_size;
          tdas = py_slice_to das train_size;
          X = map (\<lambda>(da, tree). get_features E (feats h) tree da) (zip tdas trees);
          (m, tfeats, ncols) = fit_transform E X;
          (cg, sp) = (case candgen_model h of
                        None \<Rightarrow> (NoAttr, NoAttr)
                      | Some model \<Rightarrow> (Obj model, Obj ()));
          mk = (\<lambda>ap. \<lparr>alpha = alpha h, passes = passes h, rival_number = rival_number h,
                       rival_gen_strategy = rival_gen_strategy h,
                       candgen_model = candgen_model h, feats = feats h,
                       w = np_ones ncols, pipeline = m, train_trees = trees,
                       train_das = tdas, train_feats = tfeats, candgen = cg,
                       sampling_planner = sp, asearch_planner = ap,
                       evaluator = [], lists_analyzer = []\<rparr>)
      in if ''gen_cur_weights'' \<in> set (rival_gen_strategy h)
         then (case cg of
                 NoAttr \<Rightarrow> Inl AttributeError
               | PyNone \<Rightarrow> Inl AssertionError
               | Obj g \<Rightarrow> Inr (mk (Obj ())))
         else Inr (mk NoAttr))"

subsection \<open>Rival candidates\<close>

text \<open>
  \<^verbatim>\<open>random.sample(xrange(n), k)\<close> raises \<^verbatim>\<open>ValueError\<close> when the sample is larger than
  the population. Otherwise it returns the environment's answer, which the library
  promises to be \<open>k\<close> different elements of the population (\<open>sample_ok\<close>).
\<close>

definition random_sample :: "nat \<Rightarrow> nat \<Rightarrow> nat list \<Rightarrow> error + nat list" where
  "random_sample n k answer = (if k \<le> n then Inr answer else Inl ValueError)"

definition sample_ok :: "nat \<Rightarrow> nat \<Rightarrow> nat list \<Rightarrow> bool" where
  "sample_ok n k s = (length s = k \<and> distinct s \<and> list_all (\<lambda>i. i < n) s)"

text \<open>The \<^verbatim>\<open>map\<close> over the sample: the current index is replaced by the last one.\<close>

definition rival_idxs :: "nat \<Rightarrow> nat \<Rightarrow> nat list \<Rightarrow> nat list" where
  "rival_idxs n tree_no s = map (\<lambda>idx. if idx = tree_no then n - 1 else idx) s"

text \<open>
  The block of the strategy \<^verbatim>\<open>other_inst\<close>. The population is
  \<^verbatim>\<open>xrange(len(train_trees) - 1)\<close>, which is empty for an empty training set.
\<close>

definition other_inst_rivals ::
  "('t, 'd, 'm, 'n) collab \<Rightarrow> ('t, 'd, 'm, 'n) ranker \<Rightarrow> 't draws \<Rightarrow> nat \<Rightarrow> 'd
     \<Rightarrow> error + ('t list \<times> 'n vec list)" where
  "other_inst_rivals E r dr tree_no da =
     (if ''other_inst'' \<in> set (rival_gen_strategy r)
      then (case random_sample (length (train_trees r) - 1) (rival_number r) (sampled dr) of
              Inl e \<Rightarrow> Inl e
            | Inr s \<Rightarrow>
                (case py_getitems (train_trees r) (rival_idxs (length (train_trees r)) tree_no s) of
                   Inl e \<Rightarrow> Inl e
                 | Inr other_inst_trees \<Rightarrow>
                     Inr (other_inst_trees,
                          map (\<lambda>tree. extract_feats E r tree da) other_inst_trees)))
      else Inr ([], []))"

text \<open>
  The \<^verbatim>\<open>while\<close> loop of the strategy \<^verbatim>\<open>random\<close>; \<open>i\<close> counts the calls of
  \<^verbatim>\<open>generate_tree\<close> made so far. The loop has no bound on its iterations.
\<close>

partial_function (option) random_loop ::
  "('t, 'd, 'm, 'n) ranker \<Rightarrow> (nat \<Rightarrow> 't) \<Rightarrow> nat \<Rightarrow> nat \<Rightarrow> 't list \<Rightarrow> (error + 't list) option" where
  "random_loop r gen tree_no i random_trees =
     (if length random_trees < rival_number r
      then (case sampling_planner r of
              Obj p \<Rightarrow>
                (case py_getitem (train_trees r) tree_no of
                   Inl e \<Rightarrow> Some (Inl e)
                 | Inr gold \<Rightarrow>
                     if gen i \<noteq> gold
                     then random_loop r gen tree_no (Suc i) (random_trees @ [gen i])
                     else random_loop r gen tree_no (Suc i) random_trees)
            | _ \<Rightarrow> Some (Inl AttributeError))
      else Some (Inr random_trees))"

definition random_rivals ::
  "('t, 'd, 'm, 'n) collab \<Rightarrow> ('t, 'd, 'm, 'n) ranker \<Rightarrow> 't draws \<Rightarrow> nat \<Rightarrow> 'd
     \<Rightarrow> (error + ('t list \<times> 'n vec list)) option" where
  "random_rivals E r dr tree_no da =
     (if ''random'' \<in> set (rival_gen_strategy r)
      then (case random_loop r (generated dr) tree_no 0 [] of
              None \<Rightarrow> None
            | Some (Inl e) \<Rightarrow> Some (Inl e)
            | Some (Inr random_trees) \<Rightarrow>
                Some (Inr (random_trees,
                           map (\<lambda>tree. extract_feats E r tree da) random_trees)))
      else Some (Inr ([], [])))"

text \<open>
  Modelled from the spec: the closed list that \<^verbatim>\<open>ASearchPlanner.run\<close> returns (the planner
  is not part of \<^verbatim>\<open>rank.py\<close>) is a list of (tree, cost) entries, is true when it is not
  empty, and \<^verbatim>\<open>pop()\<close> takes its last entry. The \<^verbatim>\<open>while\<close> loop of the strategy
  \<^verbatim>\<open>gen_cur_weights\<close> then is:
\<close>

function close_list_loop :: "'t \<Rightarrow> nat \<Rightarrow> 't cand_list \<Rightarrow> 't list \<Rightarrow> 't list" where
  "close_list_loop gold k close_list gen_trees =
     (if close_list \<noteq> [] \<and> length gen_trees < k
      then (let tree = fst (last close_list) in
            if tree \<noteq> gold
            then close_list_loop gold k (butlast close_list) (gen_trees @ [tree])
            else close_list_loop gold k (butlast close_list) gen_trees)
      else gen_trees)"
  by pat_completeness auto
termination
  by (relation "measure (\<lambda>(gold, k, close_list, gen_trees). length close_list)") auto

declare close_list_loop.simps [simp del]

text \<open>
  The block of the strategy \<^verbatim>\<open>gen_cur_weights\<close>. Modelled from the spec:
  \<^verbatim>\<open>ASearchListsAnalyzer.append\<close> (not part of \<^verbatim>\<open>rank.py\<close>) records the gold tree and
  the two lists as they are when it is called.
\<close>

definition gen_cur_weights_rivals ::
  "('t, 'd, 'm, 'n) collab \<Rightarrow> ('t, 'd, 'm, 'n) ranker \<Rightarrow> 't draws \<Rightarrow> nat \<Rightarrow> 'd
     \<Rightarrow> ('t list \<times> 'n vec list, ('t, 'd, 'm, 'n) ranker) outcome" where
  "gen_cur_weights_rivals E r dr tree_no da =
     (if ''gen_cur_weights'' \<in> set (rival_gen_strategy r)
      then (case asearch_planner r of
              Obj p \<Rightarrow>
                (let (open_list, close_list) = searched dr in
                 case py_getitem (train_trees r) tree_no of
                   Inl e \<Rightarrow> Raise e r
                 | Inr gold \<Rightarrow>
                     (let r' = r\<lparr>lists_analyzer :=
                                   lists_analyzer r @ [(gold, open_list, close_list)]\<rparr>;
                          gen_trees = close_list_loop gold (rival_number r) close_list []
                      in Return (take (rival_number r) gen_trees,
                                 map (\<lambda>tree. extract_feats E r' tree da)
                                     (take (rival_number r) gen_trees)) r'))
            | _ \<Rightarrow> Raise AttributeError r)
      else Return ([], []) r)"

text \<open>\<^verbatim>\<open>_get_rival_candidates\<close>: the three blocks in the order of the source.\<close>

definition get_rival_candidates ::
  "('t, 'd, 'm, 'n) collab \<Rightarrow> ('t, 'd, 'm, 'n) ranker \<Rightarrow> 't draws \<Rightarrow> nat
     \<Rightarrow> ('t list \<times> 'n vec list, ('t, 'd, 'm, 'n) ranker) outcome option" where
  "get_rival_candidates E r dr tree_no =
     (case py_getitem (train_das r) tree_no of
        Inl e \<Rightarrow> Some (Raise e r)
      | Inr da \<Rightarrow>
          (case other_inst_rivals E r dr tree_no da of
             Inl e \<Rightarrow> Some (Raise e r)
           | Inr (trees1, feats1) \<Rightarrow>
               (case random_rivals E r dr tree_no da of
                  None \<Rightarrow> None
                | Some (Inl e) \<Rightarrow> Some (Raise e r)
                | Some (Inr (trees2, feats2)) \<Rightarrow>
                    (case gen_cur_weights_rivals E r dr tree_no da of
                       Raise e r' \<Rightarrow> Some (Raise e r')
                     | Return (trees3, feats3) r' \<Rightarrow>
                         Some (Return (trees1 @ trees2 @ trees3,
                                       feats1 @ feats2 @ feats3) r')))))"

subsection \<open>Training\<close>

text \<open>\<^verbatim>\<open>xs.index(max(xs))\<close>, the first index of a maximal element.\<close>

definition index_of_max :: "'n::ord list \<Rightarrow> error + nat" where
  "index_of_max xs = (case py_max xs of Inl e \<Rightarrow> Inl e | Inr m \<Rightarrow> py_index xs m)"

text \<open>
  The laws of \<^verbatim>\<open><\<close> that are needed to call the result of \<^verbatim>\<open>max\<close> a greatest element:
  it is transitive and irreflexive. The order of float64 has both, also on \<^verbatim>\<open>nan\<close>.
\<close>

definition strict_order :: "('n \<Rightarrow> 'n \<Rightarrow> bool) \<Rightarrow> bool" where
  "strict_order lt = ((\<forall>a b c. lt a b \<longrightarrow> lt b c \<longrightarrow> lt a c) \<and> (\<forall>a. \<not> lt a a))"

text \<open>The right-hand side of \<^verbatim>\<open>self.w += (self.alpha * gold_feats - self.alpha * cands[top_cand_idx])\<close>.\<close>

definition perceptron_update ::
  "'n::{plus,minus,times} \<Rightarrow> 'n vec \<Rightarrow> 'n vec \<Rightarrow> 'n vec \<Rightarrow> 'n vec" where
  "perceptron_update a weights gold_feats top_feats =
     np_add weights (np_sub (np_scale a gold_feats) (np_scale a top_feats))"

text \<open>
  The body of the loop of \<^verbatim>\<open>_training_iter\<close> for one \<^verbatim>\<open>tree_no\<close>; the value returned
  is the local counter \<^verbatim>\<open>iter_errs\<close>. \<^verbatim>\<open>scores[1:]\<close> is \<open>drop 1 scores\<close>. The evaluator
  records the pair of trees it is given (the \<^verbatim>\<open>TreeNode\<close> wrappers are left out).
  \<open>top_cand_idx\<close> is an index that \<^verbatim>\<open>index\<close> has found, so \<open>cands ! top_cand_idx\<close> is in
  range (lemma \<open>index_of_max_Inr\<close>).
\<close>

definition training_step ::
  "('t, 'd, 'm, 'n::{plus,minus,times,ord}) collab \<Rightarrow> 't draws \<Rightarrow> nat
     \<Rightarrow> ('t, 'd, 'm, 'n) ranker \<Rightarrow> nat
     \<Rightarrow> (nat, ('t, 'd, 'm, 'n) ranker) outcome option" where
  "training_step E dr tree_no r iter_errs =
     (case py_getitem (train_trees r) tree_no of
        Inl e \<Rightarrow> Some (Raise e r)
      | Inr gold_ttree \<Rightarrow>
     (case py_getitem (train_feats r) tree_no of
        Inl e \<Rightarrow> Some (Raise e r)
      | Inr gold_feats \<Rightarrow>
     (case get_rival_candidates E r dr tree_no of
        None \<Rightarrow> None
      | Some (Raise e r1) \<Rightarrow> Some (Raise e r1)
      | Some (Return (rival_ttrees, rival_feats) r1) \<Rightarrow>
          (let cands = gold_feats # rival_feats;
               scores = map (score_feats E r1) cands
           in case index_of_max scores of
                Inl e \<Rightarrow> Some (Raise e r1)
              | Inr top_cand_idx \<Rightarrow>
           (case index_of_max (drop 1 scores) of
                Inl e \<Rightarrow> Some (Raise e r1)
              | Inr best_rival \<Rightarrow>
           (case py_getitem rival_ttrees best_rival of
                Inl e \<Rightarrow> Some (Raise e r1)
              | Inr best_ttree \<Rightarrow>
                  (let r2 = r1\<lparr>evaluator := evaluator r1 @ [(gold_ttree, best_ttree)]\<rparr>
                   in if top_cand_idx \<noteq> 0
                      then Some (Return (iter_errs + 1)
                             (r2\<lparr>w := perceptron_update (alpha r2) (w r2) gold_feats
                                          (cands ! top_cand_idx)\<rparr>))
                      else Some (Return iter_errs r2))))))))"

fun training_loop ::
  "('t, 'd, 'm, 'n::{plus,minus,times,ord}) collab \<Rightarrow> (nat \<Rightarrow> 't draws) \<Rightarrow> nat list
     \<Rightarrow> ('t, 'd, 'm, 'n) ranker \<Rightarrow> nat
     \<Rightarrow> (nat, ('t, 'd, 'm, 'n) ranker) outcome option" where
  "training_loop E drs [] r iter_errs = Some (Return iter_errs r)"
| "training_loop E drs (tree_no # rest) r iter_errs =
     (case training_step E (drs tree_no) tree_no r iter_errs of
        None \<Rightarrow> None
      | Some (Raise e r') \<Rightarrow> Some (Raise e r')
      | Some (Return iter_errs' r') \<Rightarrow> training_loop E drs rest r' iter_errs')"

text \<open>
  \<^verbatim>\<open>_training_iter\<close>: both diagnostics are reset, the loop runs over
  \<^verbatim>\<open>xrange(len(train_trees))\<close>, and the accuracy of the pass is
  \<^verbatim>\<open>1.0 - iter_errs / float(len(train_trees))\<close>, a division that raises for a zero
  divisor. The source only logs the accuracy; the value returned here is the error
  count \<^verbatim>\<open>iter_errs\<close> it is computed from.
\<close>

definition training_iter ::
  "('t, 'd, 'm, 'n::{plus,minus,times,ord}) collab \<Rightarrow> (nat \<Rightarrow> 't draws)
     \<Rightarrow> ('t, 'd, 'm, 'n) ranker \<Rightarrow> int
     \<Rightarrow> (nat, ('t, 'd, 'm, 'n) ranker) outcome option" where
  "training_iter E drs r iter_no =
     (let r0 = r\<lparr>evaluator := [], lists_analyzer := []\<rparr>
      in case training_loop E drs [0..<length (train_trees r0)] r0 0 of
           None \<Rightarrow> None
         | Some (Raise e r') \<Rightarrow> Some (Raise e r')
         | Some (Return iter_errs r') \<Rightarrow>
             if length (train_trees r') = 0
             then Some (Raise ZeroDivisionError r')
             else Some (Return iter_errs r'))"

fun train_passes ::
  "('t, 'd, 'm, 'n::{plus,minus,times,ord}) collab \<Rightarrow> (int \<Rightarrow> nat \<Rightarrow> 't draws) \<Rightarrow> int list
     \<Rightarrow> ('t, 'd, 'm, 'n) ranker
     \<Rightarrow> (unit, ('t, 'd, 'm, 'n) ranker) outcome option" where
  "train_passes E drs [] r = Some (Return () r)"
| "train_passes E drs (iter_no # rest) r =
     (case training_iter E (drs iter_no) r iter_no of
        None \<Rightarrow> None
      | Some (Raise e r') \<Rightarrow> Some (Raise e r')
      | Some (Return iter_errs r') \<Rightarrow> train_passes E drs rest r')"

text \<open>
  \<^verbatim>\<open>train\<close>: \<open>Inl e\<close> when \<^verbatim>\<open>_init_training\<close> raises \<open>e\<close>, otherwise the outcome of
  the passes \<^verbatim>\<open>xrange(1, passes + 1)\<close>.
\<close>

definition train ::
  "('t, 'd, 'm, 'n::{plus,minus,times,one,ord}) collab \<Rightarrow> 'n hyper \<Rightarrow> (int \<Rightarrow> nat \<Rightarrow> 't draws)
     \<Rightarrow> 'd list \<Rightarrow> 't list \<Rightarrow> real
     \<Rightarrow> (error + (unit, ('t, 'd, 'm, 'n) ranker) outcome) option" where
  "train E h drs das ttrees data_portion =
     (case init_training E h das ttrees data_portion of
        Inl e \<Rightarrow> Some (Inl e)
      | Inr r \<Rightarrow> map_option Inr (train_passes E drs [1..passes r] r))"

text \<open>The ranker object that an outcome leaves behind.\<close>

fun state_of :: "('a, 's) outcome \<Rightarrow> 's" where
  "state_of (Return v s) = s"
| "state_of (Raise e s) = s"

subsection \<open>A small corpus\<close>

text \<open>
  Four instances whose trees and dialogue acts are numbers; tree \<open>i\<close> is the gold tree
  of dialogue act \<open>i\<close>. The two features are the bias and an indicator that the tree
  does not belong to the dialogue act.
\<close>

definition ex_vector :: "feat_dict \<Rightarrow> real vec" where
  "ex_vector fd = map (\<lambda>name. case fd name of None \<Rightarrow> 0 | Some v \<Rightarrow> v) [''bias'', ''wrong'']"

definition ex_collab :: "(nat, nat, unit, real) collab" where
  "ex_collab =
     \<lparr>get_features = (\<lambda>templates tree da name.
         if name = ''bias'' then Some 1
         else if name = ''wrong'' then Some (if tree = da then 0 else 1)
         else None),
      fit_transform = (\<lambda>X. ((), map ex_vector X, 2)),
      transform = (\<lambda>m fd. ex_vector fd),
      np_dot = (\<lambda>a b. sum_list (map (\<lambda>(x, y). x * y) (zip a b)))\<rparr>"

definition ex_ranker :: "string list \<Rightarrow> nat \<Rightarrow> real vec \<Rightarrow> (nat, nat, unit, real) ranker" where
  "ex_ranker strategy k weights =
     \<lparr>alpha = 1, passes = 1, rival_number = k, rival_gen_strategy = strategy,
      candgen_model = Some ''candgen.pickle.gz'', feats = [''bias: bias''],
      w = weights, pipeline = (), train_trees = [0, 1, 2, 3], train_das = [0, 1, 2, 3],
      train_feats = [[1, 0], [1, 0], [1, 0], [1, 0]], candgen = Obj ''candgen.pickle.gz'',
      sampling_planner = Obj (), asearch_planner = Obj (),
      evaluator = [], lists_analyzer = []\<rparr>"

definition ex_draws :: "nat draws" where
  "ex_draws =
     \<lparr>sampled = [0, 1],
      generated = (\<lambda>i. if i < 2 then 0 else i),
      searched = ([(9, 0)], [(0, 1), (5, 2), (0, 3), (7, 4)])\<rparr>"

text \<open>
  A second corpus for the training step: the learning rate is one half, and the second
  feature is the distance between the tree and the dialogue act, so that rivals differ
  in their scores. The sample is \<open>[1, 0]\<close>.
\<close>

definition ex_step_vector :: "feat_dict \<Rightarrow> real vec" where
  "ex_step_vector fd = map (\<lambda>name. case fd name of None \<Rightarrow> 0 | Some v \<Rightarrow> v) [''bias'', ''dist'']"

definition ex_step_collab :: "(nat, nat, unit, real) collab" where
  "ex_step_collab =
     \<lparr>get_features = (\<lambda>templates tree da name.
         if name = ''bias'' then Some 1
         else if name = ''dist'' then Some (real (if da \<le> tree then tree - da else da - tree))
         else None),
      fit_transform = (\<lambda>X. ((), map ex_step_vector X, 2)),
      transform = (\<lambda>m fd. ex_step_vector fd),
      np_dot = (\<lambda>a b. sum_list (map (\<lambda>(x, y). x * y) (zip a b)))\<rparr>"

definition ex_step_ranker :: "real vec \<Rightarrow> (nat, nat, unit, real) ranker" where
  "ex_step_ranker weights =
     \<lparr>alpha = 1 / 2, passes = 1, rival_number = 2, rival_gen_strategy = [''other_inst''],
      candgen_model = None, feats = [''bias: bias''],
      w = weights, pipeline = (), train_trees = [0, 1, 2, 3], train_das = [0, 1, 2, 3],
      train_feats = [[1, 0], [1, 0], [1, 0], [1, 0]], candgen = NoAttr,
      sampling_planner = NoAttr, asearch_planner = NoAttr,
      evaluator = [], lists_analyzer = []\<rparr>"

definition ex_step_draws :: "nat draws" where
  "ex_step_draws = \<lparr>sampled = [1, 0], generated = (\<lambda>i. 0), searched = ([], [])\<rparr>"

text \<open>The empty configuration dictionary, and all draws the same for every call.\<close>

definition ex_cfg :: "real cfg" where
  "ex_cfg = \<lparr>cfg_alpha = None, cfg_passes = None, cfg_rival_number = None,
              cfg_rival_gen_strategy = None, cfg_candgen_model = None, cfg_features = None\<rparr>"

definition ex_all_draws :: "int \<Rightarrow> nat \<Rightarrow> nat draws" where
  "ex_all_draws iter_no tree_no = ex_draws"

section \<open>Properties\<close>

subsection \<open>Maximum and index\<close>

text \<open>No law of \<open><\<close> is used unless \<open>strict_order\<close> is assumed.\<close>

lemma foldl_py_max_mem:
  "foldl (\<lambda>m y. if m < y then y else m) x xs \<in> set (x # xs)"
  by (induction xs arbitrary: x) auto

lemma py_max_mem: "py_max xs = Inr m \<Longrightarrow> m \<in> set xs"
  using foldl_py_max_mem by (cases xs) auto

lemma py_max_total: "xs \<noteq> [] \<Longrightarrow> \<exists>m. py_max xs = Inr m"
  by (cases xs) simp_all

lemma foldl_py_max_keep:
  "\<forall>y\<in>set xs. \<not> x < y \<Longrightarrow> foldl (\<lambda>m y. if m < y then y else m) x xs = x"
  by (induction xs) simp_all

lemma foldl_py_max_greatest:
  assumes "strict_order ((<) :: 'n::ord \<Rightarrow> 'n \<Rightarrow> bool)"
  shows "\<not> foldl (\<lambda>m y. if m < y then y else m) x xs < (x :: 'n) \<and>
         (\<forall>y\<in>set xs. \<not> foldl (\<lambda>m y. if m < y then y else m) x xs < y) \<and>
         (foldl (\<lambda>m y. if m < y then y else m) x xs = x \<or>
          x < foldl (\<lambda>m y. if m < y then y else m) x xs)"
proof -
  have tr: "a < b \<Longrightarrow> b < c \<Longrightarrow> a < c" for a b c :: 'n
    using assms unfolding strict_order_def by (elim conjE allE[of _ a] allE[of _ b] allE[of _ c]) simp
  have ir: "\<not> a < a" for a :: 'n
    using assms unfolding strict_order_def by (elim conjE allE[of _ a])
  show ?thesis
  proof (induction xs arbitrary: x)
    case Nil
    show ?case using ir by simp
  next
    case (Cons y ys)
    let ?f = "\<lambda>m y :: 'n. if m < y then y else m"
    show ?case
    proof (cases "x < y")
      case True
      let ?m = "foldl ?f y ys"
      from Cons.IH[of y] have a: "\<not> ?m < y" and b: "\<forall>z\<in>set ys. \<not> ?m < z"
        and c: "?m = y \<or> y < ?m" by blast+
      have "\<not> ?m < x" using a tr[of ?m x y] True by blast
      moreover have "?m = x \<or> x < ?m" using c True tr[of x y ?m] by auto
      ultimately show ?thesis using a b True by simp
    next
      case False
      let ?m = "foldl ?f x ys"
      from Cons.IH[of x] have a: "\<not> ?m < x" and b: "\<forall>z\<in>set ys. \<not> ?m < z"
        and c: "?m = x \<or> x < ?m" by blast+
      have "\<not> ?m < y" using c False tr[of x ?m y] by auto
      then show ?thesis using a b c False by simp
    qed
  qed
qed

lemma py_index_Inr:
  "py_index xs v = Inr i \<Longrightarrow> i < length xs \<and> xs ! i = v \<and> (\<forall>j<i. xs ! j \<noteq> v)"
proof (induction xs arbitrary: i)
  case Nil
  then show ?case by simp
next
  case (Cons x xs)
  show ?case
  proof (cases "x = v")
    case True
    with Cons.prems show ?thesis by simp
  next
    case False
    with Cons.prems obtain i' where i': "py_index xs v = Inr i'" "i = Suc i'"
      by (auto split: sum.splits)
    from Cons.IH[OF i'(1)] False i'(2) show ?thesis
      by (auto simp: nth_Cons split: nat.splits)
  qed
qed

lemma py_index_mem: "v \<in> set xs \<Longrightarrow> \<exists>i. py_index xs v = Inr i"
  by (induction xs) auto

lemma index_of_max_total: "xs \<noteq> [] \<Longrightarrow> \<exists>i. index_of_max xs = Inr i"
proof -
  assume "xs \<noteq> []"
  then obtain m where m: "py_max xs = Inr m" using py_max_total by blast
  from py_index_mem[OF py_max_mem[OF m]] m show ?thesis
    by (simp add: index_of_max_def)
qed

lemma index_of_max_Inr:
  assumes "index_of_max xs = Inr i"
  shows "i < length xs" and "py_max xs = Inr (xs ! i)" and "\<forall>j<i. xs ! j \<noteq> xs ! i"
proof -
  from assms obtain m where m: "py_max xs = Inr m" and idx: "py_index xs m = Inr i"
    by (auto simp: index_of_max_def split: sum.splits)
  from py_index_Inr[OF idx] m
  show "i < length xs" and "py_max xs = Inr (xs ! i)" and "\<forall>j<i. xs ! j \<noteq> xs ! i"
    by simp_all
qed

lemma index_of_max_hd:
  "\<forall>y\<in>set xs. \<not> x < y \<Longrightarrow> index_of_max (x # xs) = Inr 0"
  by (simp add: index_of_max_def foldl_py_max_keep)

lemma index_of_max_greatest:
  assumes so: "strict_order ((<) :: 'n::ord \<Rightarrow> 'n \<Rightarrow> bool)"
      and i: "index_of_max (xs :: 'n list) = Inr i"
  shows "\<forall>j<length xs. \<not> xs ! i < xs ! j"
proof (cases xs)
  case Nil
  then show ?thesis by simp
next
  case (Cons x ys)
  from index_of_max_Inr(2)[OF i] Cons
  have m: "xs ! i = foldl (\<lambda>m y. if m < y then y else m) x ys" by simp
  from foldl_py_max_greatest[OF so, of x ys] m
  have "\<forall>y\<in>set xs. \<not> xs ! i < y" using Cons by auto
  then show ?thesis by simp
qed

lemma index_of_max_above_hd:
  assumes so: "strict_order ((<) :: 'n::ord \<Rightarrow> 'n \<Rightarrow> bool)"
      and i: "index_of_max ((x :: 'n) # xs) = Inr i" and "i \<noteq> 0"
  shows "x < (x # xs) ! i"
proof -
  from index_of_max_Inr(2)[OF i]
  have m: "(x # xs) ! i = foldl (\<lambda>m y. if m < y then y else m) x xs" by simp
  from index_of_max_Inr(3)[OF i] \<open>i \<noteq> 0\<close> have "(x # xs) ! 0 \<noteq> (x # xs) ! i" by blast
  then have "(x # xs) ! i \<noteq> x" by simp
  with foldl_py_max_greatest[OF so, of x xs] m show ?thesis by auto
qed

text \<open>On a linear order the result of \<^verbatim>\<open>max\<close> is the greatest element.\<close>

lemma py_max_linorder:
  "xs \<noteq> [] \<Longrightarrow> py_max (xs :: 'a::linorder list) = Inr (Max (set xs))"
proof -
  have f: "(\<lambda>m y :: 'a. if m < y then y else m) = max"
    by (auto simp: fun_eq_iff max_def)
  have "foldl max x ys = Max (set (x # ys))" for x :: 'a and ys
  proof (induction ys arbitrary: x)
    case Nil
    then show ?case by simp
  next
    case (Cons y ys)
    have "foldl max x (y # ys) = foldl max (max x y) ys" by simp
    also have "\<dots> = Max (set (max x y # ys))" by (rule Cons.IH)
    also have "\<dots> = Max (set (x # y # ys))"
      by (cases "ys = []") (simp_all add: max.assoc)
    finally show ?case .
  qed
  then show "xs \<noteq> [] \<Longrightarrow> py_max xs = Inr (Max (set xs))"
    by (cases xs) (simp_all add: f del: foldl_Cons)
qed

subsection \<open>The loops of the rival generator\<close>

lemma close_list_loop_eq:
  "length gen_trees \<le> k \<Longrightarrow>
   close_list_loop gold k close_list gen_trees =
     gen_trees @ take (k - length gen_trees) (filter (\<lambda>t. t \<noteq> gold) (map fst (rev close_list)))"
proof (induction gold k close_list gen_trees rule: close_list_loop.induct)
  case (1 gold k close_list gen_trees)
  show ?case
  proof (cases "close_list \<noteq> [] \<and> length gen_trees < k")
    case False
    then show ?thesis using "1.prems"
      by (auto simp: close_list_loop.simps[of gold k close_list gen_trees])
  next
    case True
    then obtain ys y where cl: "close_list = ys @ [y]"
      by (metis append_butlast_last_id)
    from True obtain d where d: "k - length gen_trees = Suc d"
      by (metis Suc_diff_Suc)
    show ?thesis
    proof (cases "fst y \<noteq> gold")
      case neq: True
      have "close_list_loop gold k close_list gen_trees =
            close_list_loop gold k ys (gen_trees @ [fst y])"
        using True neq unfolding cl
        by (simp add: close_list_loop.simps[of gold k "ys @ [y]" gen_trees])
      also have "\<dots> = (gen_trees @ [fst y]) @
           take (k - length (gen_trees @ [fst y])) (filter (\<lambda>t. t \<noteq> gold) (map fst (rev ys)))"
        using "1.IH"(1)[OF True refl] neq cl True by simp
      also have "\<dots> = gen_trees @ take (k - length gen_trees)
           (filter (\<lambda>t. t \<noteq> gold) (map fst (rev close_list)))"
      proof -
        from d have "k - Suc (length gen_trees) = d" by arith
        with neq cl d show ?thesis by simp
      qed
      finally show ?thesis .
    next
      case eq: False
      have "close_list_loop gold k close_list gen_trees =
            close_list_loop gold k ys gen_trees"
        using True eq unfolding cl
        by (simp add: close_list_loop.simps[of gold k "ys @ [y]" gen_trees])
      also have "\<dots> = gen_trees @
           take (k - length gen_trees) (filter (\<lambda>t. t \<noteq> gold) (map fst (rev ys)))"
        using "1.IH"(2)[OF True refl] eq cl "1.prems" by simp
      also have "\<dots> = gen_trees @ take (k - length gen_trees)
           (filter (\<lambda>t. t \<noteq> gold) (map fst (rev close_list)))"
        using eq cl by simp
      finally show ?thesis .
    qed
  qed
qed

lemma py_getitems_Inr:
  "list_all (\<lambda>i. i < length xs) idxs \<Longrightarrow> py_getitems xs idxs = Inr (map (\<lambda>i. xs ! i) idxs)"
  by (induction idxs) (simp_all add: py_getitem_def)

lemma rival_idxs_avoid:
  assumes "tree_no < n" "list_all (\<lambda>i. i < n - 1) s"
  shows "tree_no \<notin> set (rival_idxs n tree_no s)"
  using assms by (auto simp: rival_idxs_def list_all_iff)

lemma rival_idxs_bound:
  assumes "list_all (\<lambda>i. i < n - 1) s"
  shows "list_all (\<lambda>i. i < n) (rival_idxs n tree_no s)"
  using assms by (auto simp: rival_idxs_def list_all_iff)

lemma rival_idxs_distinct:
  assumes "distinct s" "list_all (\<lambda>i. i < n - 1) s"
  shows "distinct (rival_idxs n tree_no s)"
proof -
  have "inj_on (\<lambda>idx. if idx = tree_no then n - 1 else idx) (set s)"
    using assms(2) by (auto simp: inj_on_def list_all_iff split: if_splits)
  with assms(1) show ?thesis by (simp add: rival_idxs_def distinct_map)
qed

lemma upt_step: "[i..<Suc (i + n)] = i # [Suc i..<Suc (i + n)]"
  by (simp add: upt_conv_Cons)

lemma random_loop_returns:
  assumes sp: "sampling_planner r = Obj p"
      and g: "py_getitem (train_trees r) tree_no = Inr gold"
  shows "length acc \<le> rival_number r \<Longrightarrow>
         rival_number r \<le> length acc + length (filter (\<lambda>t. t \<noteq> gold) (map gen [i..<i + n])) \<Longrightarrow>
         random_loop r gen tree_no i acc =
           Some (Inr (acc @ take (rival_number r - length acc)
                              (filter (\<lambda>t. t \<noteq> gold) (map gen [i..<i + n]))))"
proof (induction n arbitrary: i acc)
  case 0
  then have "length acc = rival_number r" by simp
  then show ?case by (simp add: random_loop.simps[of r gen tree_no i acc])
next
  case (Suc n)
  show ?case
  proof (cases "length acc < rival_number r")
    case False
    with Suc.prems have "length acc = rival_number r" by simp
    then show ?thesis by (simp add: random_loop.simps[of r gen tree_no i acc])
  next
    case True
    then obtain d where d: "rival_number r - length acc = Suc d"
      by (metis Suc_diff_Suc)
    then have d': "rival_number r - Suc (length acc) = d" by arith
    show ?thesis
    proof (cases "gen i \<noteq> gold")
      case neq: True
      have "random_loop r gen tree_no i acc = random_loop r gen tree_no (Suc i) (acc @ [gen i])"
        using True neq sp g by (simp add: random_loop.simps[of r gen tree_no i acc])
      also have "\<dots> = Some (Inr ((acc @ [gen i]) @
            take (rival_number r - length (acc @ [gen i]))
              (filter (\<lambda>t. t \<noteq> gold) (map gen [Suc i..<Suc i + n]))))"
        using True Suc.prems(2) neq by (intro Suc.IH) (simp_all add: upt_step del: upt_Suc)
      also have "\<dots> = Some (Inr (acc @ take (rival_number r - length acc)
              (filter (\<lambda>t. t \<noteq> gold) (map gen [i..<i + Suc n]))))"
        using neq d d' by (simp add: upt_step del: upt_Suc)
      finally show ?thesis .
    next
      case eq: False
      have "random_loop r gen tree_no i acc = random_loop r gen tree_no (Suc i) acc"
        using True eq sp g by (simp add: random_loop.simps[of r gen tree_no i acc])
      also have "\<dots> = Some (Inr (acc @
            take (rival_number r - length acc)
              (filter (\<lambda>t. t \<noteq> gold) (map gen [Suc i..<Suc i + n]))))"
        using True Suc.prems eq by (intro Suc.IH) (simp_all add: upt_step del: upt_Suc)
      also have "\<dots> = Some (Inr (acc @ take (rival_number r - length acc)
              (filter (\<lambda>t. t \<noteq> gold) (map gen [i..<i + Suc n]))))"
        using eq by (simp add: upt_step del: upt_Suc)
      finally show ?thesis .
    qed
  qed
qed

lemma random_loop_needs:
  assumes "random_loop r gen tree_no i acc = Some y"
  shows "sampling_planner r = Obj p \<longrightarrow> py_getitem (train_trees r) tree_no = Inr gold \<longrightarrow>
         (\<exists>n. rival_number r \<le> length acc + length (filter (\<lambda>t. t \<noteq> gold) (map gen [i..<i + n])))"
  using assms
proof (induction r gen tree_no i acc y rule: random_loop.raw_induct)
  case (1 loop r gen tree_no i acc y)
  show ?case
  proof (intro impI)
    assume sp: "sampling_planner r = Obj p" and g: "py_getitem (train_trees r) tree_no = Inr gold"
    show "\<exists>n. rival_number r \<le> length acc + length (filter (\<lambda>t. t \<noteq> gold) (map gen [i..<i + n]))"
    proof (cases "length acc < rival_number r")
      case False
      then have "rival_number r \<le> length acc + length (filter (\<lambda>t. t \<noteq> gold) (map gen [i..<i + 0]))"
        by simp
      then show ?thesis by blast
    next
      case True
      show ?thesis
      proof (cases "gen i \<noteq> gold")
        case neq: True
        with 1(2) True sp g have a: "loop r gen tree_no (Suc i) (acc @ [gen i]) = Some y" by simp
        from 1(3) True neq sp g have b: "random_loop r gen tree_no (Suc i) (acc @ [gen i]) = Some y"
          by (simp add: random_loop.simps[of r gen tree_no i acc])
        from 1(1)[OF a b] sp g obtain n where
          "rival_number r \<le> length (acc @ [gen i]) +
             length (filter (\<lambda>t. t \<noteq> gold) (map gen [Suc i..<Suc i + n]))" by blast
        with neq have "rival_number r \<le> length acc +
             length (filter (\<lambda>t. t \<noteq> gold) (map gen [i..<i + Suc n]))"
          by (simp add: upt_step del: upt_Suc)
        then show ?thesis by blast
      next
        case eq: False
        with 1(2) True sp g have a: "loop r gen tree_no (Suc i) acc = Some y" by simp
        from 1(3) True eq sp g have b: "random_loop r gen tree_no (Suc i) acc = Some y"
          by (simp add: random_loop.simps[of r gen tree_no i acc])
        from 1(1)[OF a b] sp g obtain n where
          "rival_number r \<le> length acc +
             length (filter (\<lambda>t. t \<noteq> gold) (map gen [Suc i..<Suc i + n]))" by blast
        with eq have "rival_number r \<le> length acc +
             length (filter (\<lambda>t. t \<noteq> gold) (map gen [i..<i + Suc n]))"
          by (simp add: upt_step del: upt_Suc)
        then show ?thesis by blast
      qed
    qed
  qed
qed (rule assms)

subsection \<open>What \<^verbatim>\<open>_get_rival_candidates\<close> returns and what it changes\<close>

lemma extract_feats_frame [simp]:
  "extract_feats E (r\<lparr>lists_analyzer := la\<rparr>) = extract_feats E r"
  by (simp add: extract_feats_def fun_eq_iff)

lemma other_inst_rivals_Inr:
  assumes "other_inst_rivals E r dr tree_no da = Inr (ts, fs)"
  shows "fs = map (\<lambda>t. extract_feats E r t da) ts"
    and "if ''other_inst'' \<in> set (rival_gen_strategy r)
         then rival_number r \<le> length (train_trees r) - 1 \<and>
              py_getitems (train_trees r)
                (rival_idxs (length (train_trees r)) tree_no (sampled dr)) = Inr ts
         else ts = []"
  using assms
  by (auto simp: other_inst_rivals_def random_sample_def split: if_splits sum.splits)

lemma random_rivals_Inr:
  assumes "random_rivals E r dr tree_no da = Some (Inr (ts, fs))"
  shows "fs = map (\<lambda>t. extract_feats E r t da) ts"
    and "if ''random'' \<in> set (rival_gen_strategy r)
         then random_loop r (generated dr) tree_no 0 [] = Some (Inr ts)
         else ts = []"
  using assms
  by (auto simp: random_rivals_def split: if_splits option.splits sum.splits)

lemma gen_cur_weights_rivals_Raise:
  "gen_cur_weights_rivals E r dr tree_no da = Raise e r' \<Longrightarrow> r' = r"
  by (auto simp: gen_cur_weights_rivals_def Let_def
           split: if_splits pyattr.splits sum.splits prod.splits)

lemma gen_cur_weights_rivals_Return:
  assumes "gen_cur_weights_rivals E r dr tree_no da = Return (ts, fs) r'"
  shows "fs = map (\<lambda>t. extract_feats E r t da) ts"
    and "if ''gen_cur_weights'' \<in> set (rival_gen_strategy r)
         then (\<exists>p. asearch_planner r = Obj p) \<and> tree_no < length (train_trees r) \<and>
              r' = r\<lparr>lists_analyzer := lists_analyzer r @
                     [(train_trees r ! tree_no, fst (searched dr), snd (searched dr))]\<rparr> \<and>
              ts = take (rival_number r)
                     (filter (\<lambda>t. t \<noteq> train_trees r ! tree_no)
                        (map fst (rev (snd (searched dr)))))
         else r' = r \<and> ts = []"
  using assms
  by (auto simp: gen_cur_weights_rivals_def Let_def py_getitem_def close_list_loop_eq
           split: if_splits pyattr.splits sum.splits prod.splits)

lemma get_rival_candidates_Raise:
  "get_rival_candidates E r dr tree_no = Some (Raise e r') \<Longrightarrow> r' = r"
  by (auto simp: get_rival_candidates_def
           dest: gen_cur_weights_rivals_Raise
           split: sum.splits option.splits prod.splits outcome.splits)

lemma get_rival_candidates_Return:
  assumes "get_rival_candidates E r dr tree_no = Some (Return (rival_trees, rival_feats) r')"
  shows "tree_no < length (train_das r) \<and>
         (\<exists>ts1 ts2 ts3.
            rival_trees = ts1 @ ts2 @ ts3 \<and>
            rival_feats = map (\<lambda>t. extract_feats E r t (train_das r ! tree_no)) rival_trees \<and>
            (if ''other_inst'' \<in> set (rival_gen_strategy r)
             then rival_number r \<le> length (train_trees r) - 1 \<and>
                  py_getitems (train_trees r)
                    (rival_idxs (length (train_trees r)) tree_no (sampled dr)) = Inr ts1
             else ts1 = []) \<and>
            (if ''random'' \<in> set (rival_gen_strategy r)
             then random_loop r (generated dr) tree_no 0 [] = Some (Inr ts2)
             else ts2 = []) \<and>
            (if ''gen_cur_weights'' \<in> set (rival_gen_strategy r)
             then (\<exists>p. asearch_planner r = Obj p) \<and> tree_no < length (train_trees r) \<and>
                  r' = r\<lparr>lists_analyzer := lists_analyzer r @
                         [(train_trees r ! tree_no, fst (searched dr), snd (searched dr))]\<rparr> \<and>
                  ts3 = take (rival_number r)
                         (filter (\<lambda>t. t \<noteq> train_trees r ! tree_no)
                            (map fst (rev (snd (searched dr)))))
             else r' = r \<and> ts3 = []))"
proof -
  from assms have lt: "tree_no < length (train_das r)"
    by (auto simp: get_rival_candidates_def py_getitem_def split: if_splits)
  define da where "da = train_das r ! tree_no"
  from lt have g: "py_getitem (train_das r) tree_no = Inr da"
    by (simp add: py_getitem_def da_def)
  from assms g obtain ts1 fs1 where o: "other_inst_rivals E r dr tree_no da = Inr (ts1, fs1)"
    by (auto simp: get_rival_candidates_def split: sum.splits)
  from assms g o obtain ts2 fs2 where rn: "random_rivals E r dr tree_no da = Some (Inr (ts2, fs2))"
    by (auto simp: get_rival_candidates_def split: sum.splits option.splits)
  from assms g o rn obtain ts3 fs3 where
    gc: "gen_cur_weights_rivals E r dr tree_no da = Return (ts3, fs3) r'"
    and t: "rival_trees = ts1 @ ts2 @ ts3" and f: "rival_feats = fs1 @ fs2 @ fs3"
    by (auto simp: get_rival_candidates_def split: outcome.splits)
  note o' = other_inst_rivals_Inr[OF o]
  note rn' = random_rivals_Inr[OF rn]
  note gc' = gen_cur_weights_rivals_Return[OF gc]
  have "rival_feats = map (\<lambda>t. extract_feats E r t da) rival_trees"
    using t f o'(1) rn'(1) gc'(1) by simp
  with lt t o'(2) rn'(2) gc'(2) show ?thesis
    unfolding da_def by blast
qed

lemma get_rival_candidates_frame:
  assumes "get_rival_candidates E r dr tree_no = Some res"
  shows "\<exists>la. state_of res = r\<lparr>lists_analyzer := la\<rparr>"
proof (cases res)
  case (Return v r')
  obtain ts fs where v: "v = (ts, fs)" by (cases v)
  note R = get_rival_candidates_Return[OF assms[unfolded Return v]]
  show ?thesis
  proof (cases "''gen_cur_weights'' \<in> set (rival_gen_strategy r)")
    case True
    with R obtain la where "r' = r\<lparr>lists_analyzer := la\<rparr>" by force
    then show ?thesis by (auto simp: Return)
  next
    case False
    with R have "r' = r" by force
    then have "r' = r\<lparr>lists_analyzer := lists_analyzer r\<rparr>" by simp
    then show ?thesis unfolding Return state_of.simps by (rule exI)
  qed
next
  case (Raise e r')
  with get_rival_candidates_Raise[OF assms[unfolded Raise]]
  have "state_of res = r\<lparr>lists_analyzer := lists_analyzer r\<rparr>" by simp
  then show ?thesis by (rule exI)
qed

lemma get_rival_candidates_w:
  assumes "get_rival_candidates E r dr tree_no = Some res"
  shows "w (state_of res) = w r" and "alpha (state_of res) = alpha r"
  using get_rival_candidates_frame[OF assms] by auto

subsection \<open>The small corpus, evaluated\<close>

lemma ex_ranker_sel [simp]:
  "alpha (ex_ranker s k ws) = 1"
  "rival_number (ex_ranker s k ws) = k"
  "rival_gen_strategy (ex_ranker s k ws) = s"
  "feats (ex_ranker s k ws) = [''bias: bias'']"
  "w (ex_ranker s k ws) = ws"
  "pipeline (ex_ranker s k ws) = ()"
  "train_trees (ex_ranker s k ws) = [0, 1, 2, 3]"
  "train_das (ex_ranker s k ws) = [0, 1, 2, 3]"
  "train_feats (ex_ranker s k ws) = [[1, 0], [1, 0], [1, 0], [1, 0]]"
  "sampling_planner (ex_ranker s k ws) = Obj ()"
  "asearch_planner (ex_ranker s k ws) = Obj ()"
  "evaluator (ex_ranker s k ws) = []"
  "lists_analyzer (ex_ranker s k ws) = []"
  by (simp_all add: ex_ranker_def)

lemma ex_draws_sel [simp]:
  "sampled ex_draws = [0, 1]"
  "generated ex_draws = (\<lambda>i. if i < 2 then 0 else i)"
  "searched ex_draws = ([(9, 0)], [(0, 1), (5, 2), (0, 3), (7, 4)])"
  by (simp_all add: ex_draws_def)

lemma ex_extract [simp]:
  "extract_feats ex_collab r t d = [1, if t = d then 0 else 1]"
  by (simp add: extract_feats_def ex_collab_def ex_vector_def)

lemma ex_other_inst_off:
  "''other_inst'' \<notin> set s \<Longrightarrow> other_inst_rivals E (ex_ranker s k ws) dr tree_no da = Inr ([], [])"
  by (simp add: other_inst_rivals_def)

lemma ex_random_off:
  "''random'' \<notin> set s \<Longrightarrow> random_rivals E (ex_ranker s k ws) dr tree_no da = Some (Inr ([], []))"
  by (simp add: random_rivals_def)

lemma ex_other_inst_on:
  "''other_inst'' \<in> set s \<Longrightarrow>
   other_inst_rivals ex_collab (ex_ranker s 2 ws) ex_draws 0 0 =
     Inr ([3, 1], [[1, 1], [1, 1]])"
  by (simp add: other_inst_rivals_def random_sample_def rival_idxs_def py_getitem_def)

lemma upt_0_4: "[0..<4] = [0, 1, 2, 3]"
  by code_simp

lemma ex_random_loop:
  "random_loop (ex_ranker s 2 ws) (\<lambda>i. if i < 2 then 0 else i) 0 0 [] = Some (Inr [2, 3])"
  using random_loop_returns[of "ex_ranker s 2 ws" "()" 0 0 "[]" "\<lambda>i. if i < 2 then 0 else i" 0 4]
  by (simp add: py_getitem_def upt_0_4)

lemma ex_random_on:
  "''random'' \<in> set s \<Longrightarrow>
   random_rivals ex_collab (ex_ranker s 2 ws) ex_draws 0 0 =
     Some (Inr ([2, 3], [[1, 1], [1, 1]]))"
  by (simp add: random_rivals_def ex_random_loop)

lemma ex_gen_cur_weights_on:
  "''gen_cur_weights'' \<in> set s \<Longrightarrow>
   gen_cur_weights_rivals ex_collab (ex_ranker s 2 ws) ex_draws 0 0 =
     Return ([7, 5], [[1, 1], [1, 1]])
       ((ex_ranker s 2 ws)
          \<lparr>lists_analyzer := [(0, [(9, 0)], [(0, 1), (5, 2), (0, 3), (7, 4)])]\<rparr>)"
  by (simp add: gen_cur_weights_rivals_def py_getitem_def close_list_loop_eq)

lemma ex_all_rivals:
  "get_rival_candidates ex_collab
       (ex_ranker [''gen_cur_weights'', ''other_inst'', ''random''] 2 ws) ex_draws 0 =
     Some (Return ([3, 1, 2, 3, 7, 5], [[1, 1], [1, 1], [1, 1], [1, 1], [1, 1], [1, 1]])
       ((ex_ranker [''gen_cur_weights'', ''other_inst'', ''random''] 2 ws)
          \<lparr>lists_analyzer := [(0, [(9, 0)], [(0, 1), (5, 2), (0, 3), (7, 4)])]\<rparr>))"
  by (simp add: get_rival_candidates_def py_getitem_def ex_other_inst_on ex_random_on
        ex_gen_cur_weights_on)

lemma ex_no_rivals:
  "get_rival_candidates ex_collab (ex_ranker [''gen_cur_weights''] 2 ws)
       (ex_draws\<lparr>searched := ([], [])\<rparr>) 0 =
     Some (Return ([], [])
       ((ex_ranker [''gen_cur_weights''] 2 ws)\<lparr>lists_analyzer := [(0, [], [])]\<rparr>))"
  by (simp add: get_rival_candidates_def py_getitem_def ex_other_inst_off ex_random_off
        gen_cur_weights_rivals_def close_list_loop_eq)

subsection \<open>When \<^verbatim>\<open>_get_rival_candidates\<close> returns\<close>

lemma other_inst_rivals_returns:
  assumes "''other_inst'' \<in> set (rival_gen_strategy r) \<longrightarrow>
             rival_number r \<le> length (train_trees r) - 1 \<and>
             sample_ok (length (train_trees r) - 1) (rival_number r) (sampled dr)"
  shows "\<exists>ts fs. other_inst_rivals E r dr tree_no da = Inr (ts, fs)"
proof (cases "''other_inst'' \<in> set (rival_gen_strategy r)")
  case False
  then show ?thesis by (simp add: other_inst_rivals_def)
next
  case True
  with assms have k: "rival_number r \<le> length (train_trees r) - 1"
    and s: "list_all (\<lambda>i. i < length (train_trees r) - 1) (sampled dr)"
    by (simp_all add: sample_ok_def)
  from py_getitems_Inr[OF rival_idxs_bound[OF s]] True k show ?thesis
    by (simp add: other_inst_rivals_def random_sample_def)
qed

lemma random_rivals_returns:
  assumes "''random'' \<in> set (rival_gen_strategy r) \<longrightarrow>
             (\<exists>p. sampling_planner r = Obj p) \<and> tree_no < length (train_trees r) \<and>
             (\<exists>n. rival_number r \<le> length (filter (\<lambda>t. t \<noteq> train_trees r ! tree_no)
                                                (map (generated dr) [0..<n])))"
  shows "\<exists>ts fs. random_rivals E r dr tree_no da = Some (Inr (ts, fs))"
proof (cases "''random'' \<in> set (rival_gen_strategy r)")
  case False
  then show ?thesis by (simp add: random_rivals_def)
next
  case True
  with assms obtain p n where sp: "sampling_planner r = Obj p"
    and g: "py_getitem (train_trees r) tree_no = Inr (train_trees r ! tree_no)"
    and n: "rival_number r \<le> length (filter (\<lambda>t. t \<noteq> train_trees r ! tree_no)
                                          (map (generated dr) [0..<n]))"
    by (auto simp: py_getitem_def)
  from random_loop_returns[OF sp g, of "[]" "generated dr" 0 n] n
  obtain ts where "random_loop r (generated dr) tree_no 0 [] = Some (Inr ts)" by auto
  with True show ?thesis by (simp add: random_rivals_def)
qed

lemma gen_cur_weights_rivals_returns:
  assumes "''gen_cur_weights'' \<in> set (rival_gen_strategy r) \<longrightarrow>
             (\<exists>p. asearch_planner r = Obj p) \<and> tree_no < length (train_trees r)"
  shows "\<exists>ts fs r'. gen_cur_weights_rivals E r dr tree_no da = Return (ts, fs) r'"
proof (cases "''gen_cur_weights'' \<in> set (rival_gen_strategy r)")
  case False
  then show ?thesis by (simp add: gen_cur_weights_rivals_def)
next
  case True
  with assms obtain p where "asearch_planner r = Obj p" "tree_no < length (train_trees r)"
    by auto
  with True show ?thesis
    by (simp add: gen_cur_weights_rivals_def py_getitem_def Let_def split: prod.splits)
qed

lemma get_rival_candidates_returns:
  assumes "tree_no < length (train_das r)"
      and "''other_inst'' \<in> set (rival_gen_strategy r) \<longrightarrow>
             rival_number r \<le> length (train_trees r) - 1 \<and>
             sample_ok (length (train_trees r) - 1) (rival_number r) (sampled dr)"
      and "''random'' \<in> set (rival_gen_strategy r) \<longrightarrow>
             (\<exists>p. sampling_planner r = Obj p) \<and> tree_no < length (train_trees r) \<and>
             (\<exists>n. rival_number r \<le> length (filter (\<lambda>t. t \<noteq> train_trees r ! tree_no)
                                                (map (generated dr) [0..<n])))"
      and "''gen_cur_weights'' \<in> set (rival_gen_strategy r) \<longrightarrow>
             (\<exists>p. asearch_planner r = Obj p) \<and> tree_no < length (train_trees r)"
  shows "\<exists>rival_trees rival_feats r'.
           get_rival_candidates E r dr tree_no = Some (Return (rival_trees, rival_feats) r')"
proof -
  define da where "da = train_das r ! tree_no"
  from assms(1) have g: "py_getitem (train_das r) tree_no = Inr da"
    by (simp add: py_getitem_def da_def)
  from other_inst_rivals_returns[OF assms(2)] obtain ts1 fs1 where
    a: "other_inst_rivals E r dr tree_no da = Inr (ts1, fs1)" by blast
  from random_rivals_returns[OF assms(3)] obtain ts2 fs2 where
    b: "random_rivals E r dr tree_no da = Some (Inr (ts2, fs2))" by blast
  from gen_cur_weights_rivals_returns[OF assms(4)] obtain ts3 fs3 r' where
    c: "gen_cur_weights_rivals E r dr tree_no da = Return (ts3, fs3) r'" by blast
  show ?thesis by (simp add: get_rival_candidates_def g a b c)
qed

subsection \<open>One step of the training loop\<close>

text \<open>The new weight vector, written out element by element.\<close>

lemma perceptron_update_zip:
  "perceptron_update a ws g t = map (\<lambda>(x, y, z). x + (a * y - a * z)) (zip ws (zip g t))"
proof -
  have "map (\<lambda>(x, y). x + y) (zip ws (map (\<lambda>(x, y). x - y) (zip (map ((*) a) g) (map ((*) a) t)))) =
        map (\<lambda>(x, y, z). x + (a * y - a * z)) (zip ws (zip g t))"
  proof (induction ws arbitrary: g t)
    case Nil
    then show ?case by simp
  next
    case (Cons x xs)
    then show ?case by (cases g; cases t) simp_all
  qed
  then show ?thesis
    by (simp add: perceptron_update_def np_add_def np_sub_def np_scale_def)
qed

lemma score_feats_frame:
  "w r1 = w r \<Longrightarrow> score_feats E r1 = np_dot E (w r)"
  by (simp add: score_feats_def fun_eq_iff)

text \<open>What one step of the loop does once the rival generator has returned rivals.\<close>

lemma training_step_eval:
  assumes gt: "tree_no < length (train_trees r)"
      and gf: "tree_no < length (train_feats r)"
      and grc: "get_rival_candidates E r dr tree_no = Some (Return (rival_trees, rival_feats) r1)"
      and ne: "rival_feats \<noteq> []"
      and top: "index_of_max (map (np_dot E (w r)) (train_feats r ! tree_no # rival_feats)) =
                  Inr top_cand_idx"
  shows "\<exists>best. index_of_max (map (np_dot E (w r)) rival_feats) = Inr best \<and>
           best < length rival_trees \<and>
           training_step E dr tree_no r iter_errs =
             Some (if top_cand_idx \<noteq> 0
                   then Return (iter_errs + 1)
                          (r1\<lparr>evaluator := evaluator r1 @ [(train_trees r ! tree_no, rival_trees ! best)],
                              w := map (\<lambda>(x, y, z). x + (alpha r * y - alpha r * z))
                                     (zip (w r) (zip (train_feats r ! tree_no)
                                        ((train_feats r ! tree_no # rival_feats) ! top_cand_idx)))\<rparr>)
                   else Return iter_errs
                          (r1\<lparr>evaluator := evaluator r1 @ [(train_trees r ! tree_no, rival_trees ! best)]\<rparr>))"
proof -
  from get_rival_candidates_w[OF grc] have wr: "w r1 = w r" and ar: "alpha r1 = alpha r"
    by simp_all
  note sf = score_feats_frame[OF wr, of E]
  from get_rival_candidates_Return[OF grc] have len: "length rival_feats = length rival_trees"
    by auto
  from ne index_of_max_total[of "map (np_dot E (w r)) rival_feats"] obtain best where
    best: "index_of_max (map (np_dot E (w r)) rival_feats) = Inr best" by auto
  from index_of_max_Inr(1)[OF best] len have bl: "best < length rival_trees" by simp
  have "training_step E dr tree_no r iter_errs =
             Some (if top_cand_idx \<noteq> 0
                   then Return (iter_errs + 1)
                          (r1\<lparr>evaluator := evaluator r1 @ [(train_trees r ! tree_no, rival_trees ! best)],
                              w := map (\<lambda>(x, y, z). x + (alpha r * y - alpha r * z))
                                     (zip (w r) (zip (train_feats r ! tree_no)
                                        ((train_feats r ! tree_no # rival_feats) ! top_cand_idx)))\<rparr>)
                   else Return iter_errs
                          (r1\<lparr>evaluator := evaluator r1 @ [(train_trees r ! tree_no, rival_trees ! best)]\<rparr>))"
    using gt gf top best bl
    by (simp add: training_step_def py_getitem_def grc sf wr ar Let_def perceptron_update_zip)
  with best bl show ?thesis by blast
qed

lemma training_step_no_rivals:
  assumes gt: "tree_no < length (train_trees r)"
      and gf: "tree_no < length (train_feats r)"
      and grc: "get_rival_candidates E r dr tree_no = Some (Return (rival_trees, []) r1)"
  shows "training_step E dr tree_no r iter_errs = Some (Raise ValueError r1)"
  using gt gf by (simp add: training_step_def py_getitem_def grc index_of_max_def)

text \<open>The second corpus, evaluated.\<close>

lemma ex_step_ranker_sel [simp]:
  "alpha (ex_step_ranker ws) = 1 / 2"
  "rival_number (ex_step_ranker ws) = 2"
  "rival_gen_strategy (ex_step_ranker ws) = [''other_inst'']"
  "feats (ex_step_ranker ws) = [''bias: bias'']"
  "w (ex_step_ranker ws) = ws"
  "pipeline (ex_step_ranker ws) = ()"
  "train_trees (ex_step_ranker ws) = [0, 1, 2, 3]"
  "train_das (ex_step_ranker ws) = [0, 1, 2, 3]"
  "train_feats (ex_step_ranker ws) = [[1, 0], [1, 0], [1, 0], [1, 0]]"
  "evaluator (ex_step_ranker ws) = []"
  "lists_analyzer (ex_step_ranker ws) = []"
  by (simp_all add: ex_step_ranker_def)

lemma ex_step_extract:
  "extract_feats ex_step_collab r t d = [1, real (if d \<le> t then t - d else d - t)]"
  by (simp add: extract_feats_def ex_step_collab_def ex_step_vector_def)

lemma ex_step_dot: "np_dot ex_step_collab [a, b] [c, d] = a * c + b * d"
  by (simp add: ex_step_collab_def)

lemma ex_step_rivals:
  "get_rival_candidates ex_step_collab (ex_step_ranker ws) ex_step_draws 0 =
     Some (Return ([1, 3], [[1, 1], [1, 3]]) (ex_step_ranker ws))"
  by (simp add: get_rival_candidates_def py_getitem_def other_inst_rivals_def
        random_sample_def rival_idxs_def random_rivals_def gen_cur_weights_rivals_def
        ex_step_draws_def ex_step_extract)

lemma ex_step_top_update:
  "index_of_max (map (np_dot ex_step_collab [1, 1]) [[1, 0], [1, 1], [1, 3]]) = Inr 2"
  by (simp add: index_of_max_def ex_step_dot)

lemma ex_step_top_tie:
  "index_of_max (map (np_dot ex_step_collab [1, 0]) [[1, 0], [1, 1], [1, 3]]) = Inr 0"
  by (simp add: index_of_max_def ex_step_dot)

lemma ex_step_update:
  "training_step ex_step_collab ex_step_draws 0 (ex_step_ranker [1, 1]) 0 =
     Some (Return 1 ((ex_step_ranker [1, 1])\<lparr>evaluator := [(0, 3)], w := [1, - 1 / 2]\<rparr>))"
proof -
  let ?r = "ex_step_ranker [1, 1]"
  have a: "0 < length (train_trees ?r)" "0 < length (train_feats ?r)" by simp_all
  have t: "index_of_max (map (np_dot ex_step_collab (w ?r))
             (train_feats ?r ! 0 # [[1, 1], [1, 3]])) = Inr 2"
    using ex_step_top_update by simp
  from training_step_eval[OF a ex_step_rivals _ t, of 0]
  show ?thesis by (simp add: index_of_max_def ex_step_dot)
qed

subsection \<open>Initialization and passes\<close>

lemma py_round_0: "py_round 0 = 0"
  by (simp add: py_round_def)

lemma float64_round_0: "float64_round 0 = 0"
  by (simp add: float64_round_def)

text \<open>
  The product of the float64 number \<^verbatim>\<open>0.15\<close> with \<open>10\<close> is rounded up to \<open>3 / 2\<close>, so that
  this portion of ten trees is two trees.
\<close>

lemma float64_round_normal:
  assumes "x \<noteq> 0" and "\<lfloor>log 2 \<bar>x\<bar>\<rfloor> = e" and "- 1022 \<le> e"
      and "2 powr (real_of_int e - 52) = u" and "\<lfloor>x / u\<rfloor> = f"
  shows "float64_round x =
           real_of_int (if x / u - real_of_int f < 1 / 2 then f
                        else if 1 / 2 < x / u - real_of_int f then f + 1
                        else if even f then f else f + 1) * u"
  using assms by (simp add: float64_round_def Let_def max_def)

lemma float64_round_example:
  "float64_round (5404319552844595 / 2 ^ 55 * 10) = 3 / 2"
  "py_round (float64_round (5404319552844595 / 2 ^ 55 * 10)) = 2"
proof -
  let ?x = "5404319552844595 / 2 ^ 55 * 10 :: real"
  have x: "?x \<noteq> 0" by simp
  have e: "\<lfloor>log 2 \<bar>?x\<bar>\<rfloor> = 0"
    by (subst floor_log_eq_powr_iff) simp_all
  have u: "2 powr (real_of_int 0 - 52) = (1 / 2 ^ 52 :: real)"
  proof -
    have "2 powr (real_of_int 0 - 52) = (2::real) powr (- 52)" by simp
    also have "\<dots> = inverse (2 powr 52)" by (rule powr_minus)
    also have "(2::real) powr 52 = 2 ^ 52" by (rule powr_numeral) simp
    finally show ?thesis by (simp only: inverse_eq_divide)
  qed
  have f: "\<lfloor>?x / (1 / 2 ^ 52)\<rfloor> = 6755399441055743" by simp
  show a: "float64_round ?x = 3 / 2"
    by (subst float64_round_normal[OF x e _ u f]) simp_all
  show "py_round (float64_round ?x) = 2"
    unfolding a by (simp add: py_round_def)
qed

lemma init_training_Inr:
  assumes "init_training E h das ttrees data_portion = Inr r"
  shows "train_trees r =
           py_slice_to ttrees (py_round (float64_round (data_portion * real (length ttrees))))"
    and "train_das r =
           py_slice_to das (py_round (float64_round (data_portion * real (length ttrees))))"
    and "passes r = passes h"
    and "evaluator r = []" and "lists_analyzer r = []"
  using assms
  by (auto simp: init_training_def Let_def split: prod.splits option.splits if_splits)

lemma training_iter_empty:
  assumes "train_trees r = []"
  shows "training_iter E drs r iter_no =
           Some (Raise ZeroDivisionError (r\<lparr>evaluator := [], lists_analyzer := []\<rparr>))"
  using assms by (simp add: training_iter_def)

lemma init_training_no_assertion:
  "init_training E h das ttrees data_portion \<noteq> Inl AssertionError"
  by (auto simp: init_training_def Let_def split: prod.splits option.splits if_splits)

section \<open>The claims\<close>

text \<open>
  Claim C1. For every training instance for which the rival generator returns, with the
  candidates \<open>cands\<close> (the gold vector, then the rivals) and their scores: \<open>top_cand_idx\<close>
  is the first index whose score is the one \<^verbatim>\<open>max\<close> returns, and when \<open><\<close> is
  transitive and irreflexive no score is greater than this one and, if the index is not
  0, the gold score is smaller. When \<open>top_cand_idx\<close> is not 0, the step returns with
  the error count raised by one, and the ranker it leaves behind differs from the one
  the rival generator returned in the evaluator's new entry and in the weight vector,
  whose element \<open>i\<close> is \<open>w[i] + (alpha * gold_feats[i] - alpha * cands[top_cand_idx][i])\<close>:
  one update, grouped as in the source, in which no other candidate occurs.
\<close>

theorem C1_update_rule:
  fixes E :: "('t, 'd, 'm, 'n::{plus,minus,times,ord}) collab"
  assumes "tree_no < length (train_trees r)"
      and "tree_no < length (train_feats r)"
      and "get_rival_candidates E r dr tree_no = Some (Return (rival_trees, rival_feats) r1)"
      and "cands = train_feats r ! tree_no # rival_feats"
      and "scores = map (np_dot E (w r)) cands"
  shows "\<exists>top_cand_idx.
           index_of_max scores = Inr top_cand_idx \<and>
           top_cand_idx < length cands \<and>
           py_max scores = Inr (scores ! top_cand_idx) \<and>
           (\<forall>j<top_cand_idx. scores ! j \<noteq> scores ! top_cand_idx) \<and>
           (strict_order ((<) :: 'n \<Rightarrow> 'n \<Rightarrow> bool) \<longrightarrow>
              (\<forall>j<length scores. \<not> scores ! top_cand_idx < scores ! j) \<and>
              (top_cand_idx \<noteq> 0 \<longrightarrow> scores ! 0 < scores ! top_cand_idx)) \<and>
           (top_cand_idx \<noteq> 0 \<longrightarrow>
              (\<exists>best.
                 index_of_max (map (np_dot E (w r)) rival_feats) = Inr best \<and>
                 best < length rival_trees \<and>
                 training_step E dr tree_no r iter_errs =
                   Some (Return (iter_errs + 1)
                     (r1\<lparr>evaluator :=
                           evaluator r1 @ [(train_trees r ! tree_no, rival_trees ! best)],
                         w := map (\<lambda>(x, y, z). x + (alpha r * y - alpha r * z))
                                (zip (w r) (zip (train_feats r ! tree_no)
                                   (cands ! top_cand_idx)))\<rparr>))))"
proof -
  have sne: "scores \<noteq> []" using assms(4,5) by simp
  from index_of_max_total[OF sne] obtain i where top: "index_of_max scores = Inr i" by blast
  from index_of_max_Inr[OF top] have lt: "i < length cands"
    and mx: "py_max scores = Inr (scores ! i)"
    and first: "\<forall>j<i. scores ! j \<noteq> scores ! i" by (simp_all add: assms(5))
  have ord: "strict_order ((<) :: 'n \<Rightarrow> 'n \<Rightarrow> bool) \<longrightarrow>
              (\<forall>j<length scores. \<not> scores ! i < scores ! j) \<and>
              (i \<noteq> 0 \<longrightarrow> scores ! 0 < scores ! i)"
  proof (intro impI conjI)
    assume so: "strict_order ((<) :: 'n \<Rightarrow> 'n \<Rightarrow> bool)"
    from index_of_max_greatest[OF so top]
    show "\<forall>j<length scores. \<not> scores ! i < scores ! j" .
    assume "i \<noteq> 0"
    with index_of_max_above_hd[OF so top[unfolded assms(5) assms(4) list.map]]
    show "scores ! 0 < scores ! i" by (simp add: assms(4,5))
  qed
  have upd: "i \<noteq> 0 \<longrightarrow>
              (\<exists>best.
                 index_of_max (map (np_dot E (w r)) rival_feats) = Inr best \<and>
                 best < length rival_trees \<and>
                 training_step E dr tree_no r iter_errs =
                   Some (Return (iter_errs + 1)
                     (r1\<lparr>evaluator :=
                           evaluator r1 @ [(train_trees r ! tree_no, rival_trees ! best)],
                         w := map (\<lambda>(x, y, z). x + (alpha r * y - alpha r * z))
                                (zip (w r) (zip (train_feats r ! tree_no) (cands ! i)))\<rparr>)))"
  proof
    assume nz: "i \<noteq> 0"
    with lt assms(4) have ne: "rival_feats \<noteq> []" by (cases rival_feats) auto
    from training_step_eval[OF assms(1,2,3) ne top[unfolded assms(5) assms(4)], of iter_errs] nz
    show "\<exists>best.
                 index_of_max (map (np_dot E (w r)) rival_feats) = Inr best \<and>
                 best < length rival_trees \<and>
                 training_step E dr tree_no r iter_errs =
                   Some (Return (iter_errs + 1)
                     (r1\<lparr>evaluator :=
                           evaluator r1 @ [(train_trees r ! tree_no, rival_trees ! best)],
                         w := map (\<lambda>(x, y, z). x + (alpha r * y - alpha r * z))
                                (zip (w r) (zip (train_feats r ! tree_no) (cands ! i)))\<rparr>))"
      unfolding assms(4) by auto
  qed
  from top lt mx first ord upd show ?thesis by blast
qed

theorem C1_update_rule_witness:
  "strict_order ((<) :: real \<Rightarrow> real \<Rightarrow> bool) \<and>
   index_of_max (map (np_dot ex_step_collab [1, 1]) [[1, 0], [1, 1], [1, 3]]) = Inr 2 \<and>
   np_dot ex_step_collab [1, 1] [1, 0] < np_dot ex_step_collab [1, 1] [1, 3] \<and>
   training_step ex_step_collab ex_step_draws 0 (ex_step_ranker [1, 1]) 0 =
     Some (Return 1 ((ex_step_ranker [1, 1])\<lparr>evaluator := [(0, 3)], w := [1, - 1 / 2]\<rparr>))"
proof -
  let ?r = "ex_step_ranker [1, 1]"
  let ?scores = "map (np_dot ex_step_collab (w ?r)) (train_feats ?r ! 0 # [[1, 1], [1, 3]])"
  have so: "strict_order ((<) :: real \<Rightarrow> real \<Rightarrow> bool)"
    by (auto simp: strict_order_def)
  have a: "0 < length (train_trees ?r)" "0 < length (train_feats ?r)" by simp_all
  from C1_update_rule[OF a ex_step_rivals refl refl, of 0]
  obtain i where top: "index_of_max ?scores = Inr i"
    and ord: "strict_order ((<) :: real \<Rightarrow> real \<Rightarrow> bool) \<longrightarrow>
        (\<forall>j<length ?scores. \<not> ?scores ! i < ?scores ! j) \<and>
        (i \<noteq> 0 \<longrightarrow> ?scores ! 0 < ?scores ! i)"
    and upd: "i \<noteq> 0 \<longrightarrow> (\<exists>best.
        index_of_max (map (np_dot ex_step_collab (w ?r)) [[1, 1], [1, 3]]) = Inr best \<and>
        best < length [1, 3 :: nat] \<and>
        training_step ex_step_collab ex_step_draws 0 ?r 0 =
          Some (Return (0 + 1)
            (?r\<lparr>evaluator := evaluator ?r @ [(train_trees ?r ! 0, [1, 3] ! best)],
                w := map (\<lambda>(x, y, z). x + (alpha ?r * y - alpha ?r * z))
                       (zip (w ?r) (zip (train_feats ?r ! 0)
                          ((train_feats ?r ! 0 # [[1, 1], [1, 3]]) ! i)))\<rparr>)))"
    by blast
  from top have i: "i = 2" using ex_step_top_update by simp
  from ord so i have above: "?scores ! 0 < ?scores ! 2" by simp
  from upd[unfolded i] obtain best where
    best: "index_of_max (map (np_dot ex_step_collab (w ?r)) [[1, 1], [1, 3]]) = Inr best"
    and step: "training_step ex_step_collab ex_step_draws 0 ?r 0 =
          Some (Return (0 + 1)
            (?r\<lparr>evaluator := evaluator ?r @ [(train_trees ?r ! 0, [1, 3] ! best)],
                w := map (\<lambda>(x, y, z). x + (alpha ?r * y - alpha ?r * z))
                       (zip (w ?r) (zip (train_feats ?r ! 0)
                          ((train_feats ?r ! 0 # [[1, 1], [1, 3]]) ! 2)))\<rparr>))"
    by auto
  from best have b: "best = 1" by (simp add: index_of_max_def ex_step_dot)
  from step[unfolded b] above so ex_step_top_update show ?thesis by simp
qed

text \<open>
  Claim C2. For every training instance for which the rival generator returns: the gold
  feature vector is at index 0 of the candidate list; \<open>top_cand_idx\<close> is the first index
  whose score is the one \<^verbatim>\<open>max\<close> returns, and no score is greater when \<open><\<close> is
  transitive and irreflexive. The step returns with the error count raised by one and
  the weight vector updated if and only if \<open>top_cand_idx\<close> is not 0. When it is 0, the
  step raises for want of rivals or returns the error count as it was, and the weight
  vector is the one before the step. It is 0 whenever no rival's score is greater
  than the gold score, so also when a rival's score equals it; and when it is not 0,
  some rival's score is greater than the gold score.
\<close>

theorem C2_update_iff_top_not_gold:
  fixes E :: "('t, 'd, 'm, 'n::{plus,minus,times,ord}) collab"
  assumes "tree_no < length (train_trees r)"
      and "tree_no < length (train_feats r)"
      and "get_rival_candidates E r dr tree_no = Some (Return (rival_trees, rival_feats) r1)"
      and "cands = train_feats r ! tree_no # rival_feats"
      and "scores = map (np_dot E (w r)) cands"
  shows "\<exists>top_cand_idx.
           index_of_max scores = Inr top_cand_idx \<and>
           cands ! 0 = train_feats r ! tree_no \<and>
           top_cand_idx < length scores \<and>
           py_max scores = Inr (scores ! top_cand_idx) \<and>
           (\<forall>j<top_cand_idx. scores ! j \<noteq> scores ! top_cand_idx) \<and>
           (strict_order ((<) :: 'n \<Rightarrow> 'n \<Rightarrow> bool) \<longrightarrow>
              (\<forall>j<length scores. \<not> scores ! top_cand_idx < scores ! j)) \<and>
           ((\<exists>r'. training_step E dr tree_no r iter_errs = Some (Return (iter_errs + 1) r') \<and>
                  w r' = map (\<lambda>(x, y, z). x + (alpha r * y - alpha r * z))
                           (zip (w r) (zip (train_feats r ! tree_no) (cands ! top_cand_idx))))
              \<longleftrightarrow> top_cand_idx \<noteq> 0) \<and>
           (top_cand_idx = 0 \<longrightarrow>
              w r1 = w r \<and>
              (rival_feats = [] \<and>
                 training_step E dr tree_no r iter_errs = Some (Raise ValueError r1) \<or>
               (\<exists>best.
                  index_of_max (map (np_dot E (w r)) rival_feats) = Inr best \<and>
                  best < length rival_trees \<and>
                  training_step E dr tree_no r iter_errs =
                    Some (Return iter_errs
                      (r1\<lparr>evaluator :=
                            evaluator r1 @ [(train_trees r ! tree_no, rival_trees ! best)]\<rparr>))))) \<and>
           ((\<forall>f\<in>set rival_feats.
                \<not> np_dot E (w r) (train_feats r ! tree_no) < np_dot E (w r) f)
              \<longrightarrow> top_cand_idx = 0) \<and>
           (top_cand_idx \<noteq> 0 \<longrightarrow>
              (\<exists>f\<in>set rival_feats.
                 np_dot E (w r) (train_feats r ! tree_no) < np_dot E (w r) f))"
proof -
  let ?g = "train_feats r ! tree_no"
  let ?new = "\<lambda>i. map (\<lambda>(x, y, z). x + (alpha r * y - alpha r * z))
                      (zip (w r) (zip ?g (cands ! i)))"
  have sne: "scores \<noteq> []" using assms(4,5) by simp
  from index_of_max_total[OF sne] obtain i where top: "index_of_max scores = Inr i" by blast
  note top' = top[unfolded assms(5) assms(4)]
  from index_of_max_Inr[OF top] have lt: "i < length scores"
    and mx: "py_max scores = Inr (scores ! i)"
    and first: "\<forall>j<i. scores ! j \<noteq> scores ! i" by simp_all
  have ord: "strict_order ((<) :: 'n \<Rightarrow> 'n \<Rightarrow> bool) \<longrightarrow>
              (\<forall>j<length scores. \<not> scores ! i < scores ! j)"
    using index_of_max_greatest[OF _ top] by blast
  from get_rival_candidates_w[OF assms(3)] have wr: "w r1 = w r" by simp
  have c0: "cands ! 0 = ?g" using assms(4) by simp
  have tie: "(\<forall>f\<in>set rival_feats. \<not> np_dot E (w r) ?g < np_dot E (w r) f) \<longrightarrow> i = 0"
  proof
    assume "\<forall>f\<in>set rival_feats. \<not> np_dot E (w r) ?g < np_dot E (w r) f"
    then have "\<forall>y\<in>set (map (np_dot E (w r)) rival_feats). \<not> np_dot E (w r) ?g < y" by simp
    from index_of_max_hd[OF this] top' show "i = 0" by simp
  qed
  have exc: "i \<noteq> 0 \<longrightarrow> (\<exists>f\<in>set rival_feats. np_dot E (w r) ?g < np_dot E (w r) f)"
    using tie by blast
  have upd: "(\<exists>r'. training_step E dr tree_no r iter_errs = Some (Return (iter_errs + 1) r') \<and>
                  w r' = ?new i) \<longleftrightarrow> i \<noteq> 0"
  proof (cases "rival_feats = []")
    case True
    with lt assms(4,5) have "i = 0" by simp
    moreover from training_step_no_rivals[OF assms(1,2) assms(3)[unfolded True], of iter_errs]
    have "training_step E dr tree_no r iter_errs = Some (Raise ValueError r1)" .
    ultimately show ?thesis by simp
  next
    case False
    from training_step_eval[OF assms(1,2,3) False top', of iter_errs]
    show ?thesis unfolding assms(4) by (auto split: if_splits)
  qed
  have keep: "i = 0 \<longrightarrow>
              w r1 = w r \<and>
              (rival_feats = [] \<and>
                 training_step E dr tree_no r iter_errs = Some (Raise ValueError r1) \<or>
               (\<exists>best.
                  index_of_max (map (np_dot E (w r)) rival_feats) = Inr best \<and>
                  best < length rival_trees \<and>
                  training_step E dr tree_no r iter_errs =
                    Some (Return iter_errs
                      (r1\<lparr>evaluator :=
                            evaluator r1 @ [(train_trees r ! tree_no, rival_trees ! best)]\<rparr>))))"
  proof (cases "rival_feats = []")
    case True
    from training_step_no_rivals[OF assms(1,2) assms(3)[unfolded True], of iter_errs]
    have "training_step E dr tree_no r iter_errs = Some (Raise ValueError r1)" .
    with wr True show ?thesis by simp
  next
    case False
    from training_step_eval[OF assms(1,2,3) False top', of iter_errs]
    show ?thesis using wr by (auto split: if_splits)
  qed
  from top c0 lt mx first ord upd keep tie exc show ?thesis by blast
qed

theorem C2_update_iff_top_not_gold_witness:
  "strict_order ((<) :: real \<Rightarrow> real \<Rightarrow> bool) \<and>
   index_of_max (map (np_dot ex_step_collab [1, 0]) [[1, 0], [1, 1], [1, 3]]) = Inr 0 \<and>
   training_step ex_step_collab ex_step_draws 0 (ex_step_ranker [1, 0]) 0 =
     Some (Return 0 ((ex_step_ranker [1, 0])\<lparr>evaluator := [(0, 1)]\<rparr>)) \<and>
   index_of_max (map (np_dot ex_step_collab [1, 1]) [[1, 0], [1, 1], [1, 3]]) = Inr 2 \<and>
   \<not> np_dot ex_step_collab [1, 1] [1, 3] < np_dot ex_step_collab [1, 1] [1, 1] \<and>
   training_step ex_step_collab ex_step_draws 0 (ex_step_ranker [1, 1]) 0 =
     Some (Return 1 ((ex_step_ranker [1, 1])\<lparr>evaluator := [(0, 3)], w := [1, - 1 / 2]\<rparr>))"
proof -
  let ?tie = "ex_step_ranker [1, 0]" and ?upd = "ex_step_ranker [1, 1]"
  let ?ts = "map (np_dot ex_step_collab (w ?tie)) (train_feats ?tie ! 0 # [[1, 1], [1, 3]])"
  let ?us = "map (np_dot ex_step_collab (w ?upd)) (train_feats ?upd ! 0 # [[1, 1], [1, 3]])"
  have so: "strict_order ((<) :: real \<Rightarrow> real \<Rightarrow> bool)"
    by (auto simp: strict_order_def)
  have a: "0 < length (train_trees ?tie)" "0 < length (train_feats ?tie)" by simp_all
  have b: "0 < length (train_trees ?upd)" "0 < length (train_feats ?upd)" by simp_all
  from C2_update_iff_top_not_gold[OF a ex_step_rivals refl refl, of 0]
  obtain i where ti: "index_of_max ?ts = Inr i"
    and tz: "(\<forall>f\<in>set [[1, 1], [1, 3]].
        \<not> np_dot ex_step_collab (w ?tie) (train_feats ?tie ! 0) < np_dot ex_step_collab (w ?tie) f)
        \<longrightarrow> i = 0"
    and keep: "i = 0 \<longrightarrow> w ?tie = w ?tie \<and>
        ([[1, 1], [1, 3 :: real]] = [] \<and>
           training_step ex_step_collab ex_step_draws 0 ?tie 0 = Some (Raise ValueError ?tie) \<or>
         (\<exists>best.
            index_of_max (map (np_dot ex_step_collab (w ?tie)) [[1, 1], [1, 3]]) = Inr best \<and>
            best < length [1, 3 :: nat] \<and>
            training_step ex_step_collab ex_step_draws 0 ?tie 0 =
              Some (Return 0
                (?tie\<lparr>evaluator := evaluator ?tie @ [(train_trees ?tie ! 0, [1, 3] ! best)]\<rparr>))))"
    by blast
  from tz have i0: "i = 0" by (simp add: ex_step_dot)
  from keep i0 obtain best where
    best: "index_of_max (map (np_dot ex_step_collab (w ?tie)) [[1, 1], [1, 3]]) = Inr best"
    and step: "training_step ex_step_collab ex_step_draws 0 ?tie 0 =
              Some (Return 0
                (?tie\<lparr>evaluator := evaluator ?tie @ [(train_trees ?tie ! 0, [1, 3] ! best)]\<rparr>))"
    by auto
  from best have "best = 0" by (simp add: index_of_max_def ex_step_dot)
  with step have tie: "training_step ex_step_collab ex_step_draws 0 ?tie 0 =
     Some (Return 0 (?tie\<lparr>evaluator := [(0, 1)]\<rparr>))" by simp
  from ti i0 have tie_top:
    "index_of_max (map (np_dot ex_step_collab [1, 0]) [[1, 0], [1, 1], [1, 3]]) = Inr 0"
    by simp
  from C2_update_iff_top_not_gold[OF b ex_step_rivals refl refl, of 0]
  obtain j where tj: "index_of_max ?us = Inr j"
    and ord: "strict_order ((<) :: real \<Rightarrow> real \<Rightarrow> bool) \<longrightarrow>
        (\<forall>k<length ?us. \<not> ?us ! j < ?us ! k)"
    and iff: "(\<exists>r'. training_step ex_step_collab ex_step_draws 0 ?upd 0 = Some (Return (0 + 1) r') \<and>
        w r' = map (\<lambda>(x, y, z). x + (alpha ?upd * y - alpha ?upd * z))
                 (zip (w ?upd) (zip (train_feats ?upd ! 0)
                    ((train_feats ?upd ! 0 # [[1, 1], [1, 3]]) ! j)))) \<longleftrightarrow> j \<noteq> 0"
    by blast
  from tj have j2: "j = 2" using ex_step_top_update by simp
  from ord so j2 have "\<forall>k<length ?us. \<not> ?us ! 2 < ?us ! k" by simp
  then have "\<not> ?us ! 2 < ?us ! 1" by (rule allE[of _ 1]) simp
  then have great: "\<not> np_dot ex_step_collab [1, 1] [1, 3] < np_dot ex_step_collab [1, 1] [1, 1]"
    by simp
  from iff j2 obtain r' where
    "training_step ex_step_collab ex_step_draws 0 ?upd 0 = Some (Return (0 + 1) r')"
    and "w r' = [1, - 1 / 2]" by auto
  with ex_step_update have upd: "training_step ex_step_collab ex_step_draws 0 ?upd 0 =
     Some (Return 1 (?upd\<lparr>evaluator := [(0, 3)], w := [1, - 1 / 2]\<rparr>))" by simp
  from so tie tie_top upd great ex_step_top_update show ?thesis by simp
qed

text \<open>
  Claim C3. With the strategy \<^verbatim>\<open>other_inst\<close>, a training set of size \<open>N\<close> with
  \<open>rival_number + 1 < N\<close>, an instance index \<open>tree_no < N\<close> and a sample that keeps the
  promise of \<^verbatim>\<open>random.sample\<close>, the block returns exactly \<open>rival_number\<close> trees. They
  are the training trees at indices that are pairwise different, all below \<open>N\<close> and
  none equal to \<open>tree_no\<close>: the sample with \<open>tree_no\<close> replaced by \<open>N - 1\<close>. The
  features of each are extracted with the dialogue act of the current instance. When
  \<^verbatim>\<open>other_inst\<close> is the only strategy, this is the result of \<^verbatim>\<open>_get_rival_candidates\<close>.
\<close>

theorem C3_other_inst:
  assumes "''other_inst'' \<in> set (rival_gen_strategy r)"
      and "rival_number r + 1 < length (train_trees r)"
      and "tree_no < length (train_trees r)"
      and "sample_ok (length (train_trees r) - 1) (rival_number r) (sampled dr)"
  shows "\<exists>idxs.
           idxs = map (\<lambda>idx. if idx = tree_no then length (train_trees r) - 1 else idx)
                    (sampled dr) \<and>
           length idxs = rival_number r \<and> distinct idxs \<and> tree_no \<notin> set idxs \<and>
           (\<forall>i\<in>set idxs. i < length (train_trees r)) \<and>
           (\<forall>da. other_inst_rivals E r dr tree_no da =
                   Inr (map (\<lambda>i. train_trees r ! i) idxs,
                        map (\<lambda>i. extract_feats E r (train_trees r ! i) da) idxs)) \<and>
           (rival_gen_strategy r = [''other_inst''] \<and> tree_no < length (train_das r) \<longrightarrow>
              get_rival_candidates E r dr tree_no =
                Some (Return (map (\<lambda>i. train_trees r ! i) idxs,
                              map (\<lambda>i. extract_feats E r (train_trees r ! i)
                                          (train_das r ! tree_no)) idxs) r))"
proof -
  let ?n = "length (train_trees r)"
  let ?idxs = "rival_idxs ?n tree_no (sampled dr)"
  from assms(4) have len: "length (sampled dr) = rival_number r"
    and dist: "distinct (sampled dr)"
    and bound: "list_all (\<lambda>i. i < ?n - 1) (sampled dr)"
    by (simp_all add: sample_ok_def)
  have a: "?idxs = map (\<lambda>idx. if idx = tree_no then ?n - 1 else idx) (sampled dr)"
    by (simp add: rival_idxs_def)
  have b: "length ?idxs = rival_number r" using len by (simp add: rival_idxs_def)
  have c: "distinct ?idxs" by (rule rival_idxs_distinct[OF dist bound])
  have d: "tree_no \<notin> set ?idxs" by (rule rival_idxs_avoid[OF assms(3) bound])
  have e: "\<forall>i\<in>set ?idxs. i < ?n"
    using rival_idxs_bound[OF bound, of tree_no] by (simp add: list_all_iff)
  have f: "other_inst_rivals E r dr tree_no da =
             Inr (map (\<lambda>i. train_trees r ! i) ?idxs,
                  map (\<lambda>i. extract_feats E r (train_trees r ! i) da) ?idxs)" for da
    using assms(1,2) py_getitems_Inr[OF rival_idxs_bound[OF bound, of tree_no]]
    by (simp add: other_inst_rivals_def random_sample_def comp_def)
  have g: "get_rival_candidates E r dr tree_no =
             Some (Return (map (\<lambda>i. train_trees r ! i) ?idxs,
                           map (\<lambda>i. extract_feats E r (train_trees r ! i)
                                       (train_das r ! tree_no)) ?idxs) r)"
    if "rival_gen_strategy r = [''other_inst'']" "tree_no < length (train_das r)"
    using that
    by (simp add: get_rival_candidates_def py_getitem_def f random_rivals_def
          gen_cur_weights_rivals_def)
  from a b c d e f g show ?thesis by blast
qed

theorem C3_other_inst_witness:
  "other_inst_rivals ex_collab (ex_ranker [''other_inst''] 2 [1, 1]) ex_draws 0 0 =
     Inr ([3, 1], [[1, 1], [1, 1]]) \<and>
   get_rival_candidates ex_collab (ex_ranker [''other_inst''] 2 [1, 1]) ex_draws 0 =
     Some (Return ([3, 1], [[1, 1], [1, 1]]) (ex_ranker [''other_inst''] 2 [1, 1])) \<and>
   distinct [3, 1 :: nat] \<and> 0 \<notin> set [3, 1 :: nat]"
  using C3_other_inst[of "ex_ranker [''other_inst''] 2 [1, 1]" 0 ex_draws ex_collab]
  by (simp add: sample_ok_def)

text \<open>
  Claim C4. With the strategy \<^verbatim>\<open>random\<close> and a sampling planner: if among finitely many
  draws of the planner there are \<open>rival_number\<close> trees other than the gold tree, the
  loop returns, with exactly \<open>rival_number\<close> trees, none of them the gold tree. If
  there is no such number of draws, the loop does not return: the attempts are not
  bounded.
\<close>

theorem C4_random_loop:
  assumes "''random'' \<in> set (rival_gen_strategy r)"
      and "sampling_planner r = Obj p"
      and "tree_no < length (train_trees r)"
  shows "((\<exists>n. rival_number r \<le>
               length (filter (\<lambda>t. t \<noteq> train_trees r ! tree_no) (map (generated dr) [0..<n])))
          \<longrightarrow> (\<exists>random_trees.
                 random_loop r (generated dr) tree_no 0 [] = Some (Inr random_trees) \<and>
                 random_rivals E r dr tree_no da =
                   Some (Inr (random_trees,
                              map (\<lambda>t. extract_feats E r t da) random_trees)) \<and>
                 length random_trees = rival_number r \<and>
                 (\<forall>t\<in>set random_trees. t \<noteq> train_trees r ! tree_no))) \<and>
         (\<not> (\<exists>n. rival_number r \<le>
               length (filter (\<lambda>t. t \<noteq> train_trees r ! tree_no) (map (generated dr) [0..<n])))
          \<longrightarrow> random_loop r (generated dr) tree_no 0 [] = None \<and>
              random_rivals E r dr tree_no da = None)"
proof (intro conjI impI)
  let ?gold = "train_trees r ! tree_no"
  from assms(3) have g: "py_getitem (train_trees r) tree_no = Inr ?gold"
    by (simp add: py_getitem_def)
  {
    assume "\<exists>n. rival_number r \<le>
               length (filter (\<lambda>t. t \<noteq> ?gold) (map (generated dr) [0..<n]))"
    then obtain n where n: "rival_number r \<le>
               length (filter (\<lambda>t. t \<noteq> ?gold) (map (generated dr) [0..<n]))" by blast
    let ?ts = "take (rival_number r) (filter (\<lambda>t. t \<noteq> ?gold) (map (generated dr) [0..<n]))"
    from random_loop_returns[OF assms(2) g, of "[]" "generated dr" 0 n] n
    have run: "random_loop r (generated dr) tree_no 0 [] = Some (Inr ?ts)" by simp
    then have rr: "random_rivals E r dr tree_no da =
        Some (Inr (?ts, map (\<lambda>t. extract_feats E r t da) ?ts))"
      using assms(1) by (simp add: random_rivals_def)
    from n have len: "length ?ts = rival_number r" by simp
    have "set ?ts \<subseteq> set (filter (\<lambda>t. t \<noteq> ?gold) (map (generated dr) [0..<n]))"
      by (rule set_take_subset)
    then have ne: "\<forall>t\<in>set ?ts. t \<noteq> ?gold" by auto
    from run rr len ne show "\<exists>random_trees.
                 random_loop r (generated dr) tree_no 0 [] = Some (Inr random_trees) \<and>
                 random_rivals E r dr tree_no da =
                   Some (Inr (random_trees,
                              map (\<lambda>t. extract_feats E r t da) random_trees)) \<and>
                 length random_trees = rival_number r \<and>
                 (\<forall>t\<in>set random_trees. t \<noteq> ?gold)" by blast
  }
  {
    assume no: "\<not> (\<exists>n. rival_number r \<le>
               length (filter (\<lambda>t. t \<noteq> ?gold) (map (generated dr) [0..<n])))"
    show none: "random_loop r (generated dr) tree_no 0 [] = None"
    proof (rule ccontr)
      assume "random_loop r (generated dr) tree_no 0 [] \<noteq> None"
      then obtain y where "random_loop r (generated dr) tree_no 0 [] = Some y" by blast
      from random_loop_needs[OF this, of p ?gold] assms(2) g no show False by simp
    qed
    show "random_rivals E r dr tree_no da = None"
      using assms(1) none by (simp add: random_rivals_def)
  }
qed

theorem C4_random_loop_witness:
  "random_rivals ex_collab (ex_ranker [''random''] 2 [1, 1]) ex_draws 0 0 =
     Some (Inr ([2, 3], [[1, 1], [1, 1]])) \<and>
   random_rivals ex_collab (ex_ranker [''random''] 2 [1, 1])
     (ex_draws\<lparr>generated := \<lambda>i. 0\<rparr>) 0 0 = None"
proof -
  let ?r = "ex_ranker [''random''] 2 [1, 1]"
  have a: "''random'' \<in> set (rival_gen_strategy ?r)" "sampling_planner ?r = Obj ()"
       "0 < length (train_trees ?r)" by simp_all
  have "\<not> (\<exists>n. rival_number ?r \<le>
               length (filter (\<lambda>t. t \<noteq> train_trees ?r ! 0)
                         (map (generated (ex_draws\<lparr>generated := \<lambda>i. 0\<rparr>)) [0..<n])))"
    by simp
  with C4_random_loop[OF a, of "ex_draws\<lparr>generated := \<lambda>i. 0\<rparr>" ex_collab 0]
  have "random_rivals ex_collab ?r (ex_draws\<lparr>generated := \<lambda>i. 0\<rparr>) 0 0 = None" by blast
  moreover have "random_rivals ex_collab ?r ex_draws 0 0 = Some (Inr ([2, 3], [[1, 1], [1, 1]]))"
    by (simp add: ex_random_on)
  ultimately show ?thesis by simp
qed

text \<open>
  Claim C5. With the strategy \<^verbatim>\<open>gen_cur_weights\<close>, whatever open and closed list the
  search returns: the gold tree and both lists are appended to the lists analyzer, and
  the block returns the trees that the loop pops from the end of the closed list, the
  gold tree left out, until \<open>rival_number\<close> trees are collected or the closed list is
  empty. These are the first \<open>rival_number\<close> trees other than the gold tree of the
  closed list read backwards, so at most \<open>rival_number\<close> trees.
\<close>

theorem C5_gen_cur_weights:
  assumes "''gen_cur_weights'' \<in> set (rival_gen_strategy r)"
      and "asearch_planner r = Obj p"
      and "tree_no < length (train_trees r)"
      and "searched dr = (open_list, close_list)"
  shows "\<exists>rival_trees r'.
           gen_cur_weights_rivals E r dr tree_no da =
             Return (rival_trees, map (\<lambda>t. extract_feats E r t da) rival_trees) r' \<and>
           r' = r\<lparr>lists_analyzer :=
                    lists_analyzer r @ [(train_trees r ! tree_no, open_list, close_list)]\<rparr> \<and>
           rival_trees = take (rival_number r)
                           (close_list_loop (train_trees r ! tree_no) (rival_number r) close_list []) \<and>
           rival_trees = take (rival_number r)
                           (filter (\<lambda>t. t \<noteq> train_trees r ! tree_no) (map fst (rev close_list))) \<and>
           length rival_trees \<le> rival_number r \<and>
           (\<forall>t\<in>set rival_trees. t \<noteq> train_trees r ! tree_no)"
proof -
  let ?gold = "train_trees r ! tree_no"
  let ?ts = "take (rival_number r) (close_list_loop ?gold (rival_number r) close_list [])"
  let ?r' = "r\<lparr>lists_analyzer := lists_analyzer r @ [(?gold, open_list, close_list)]\<rparr>"
  have eq: "?ts = take (rival_number r) (filter (\<lambda>t. t \<noteq> ?gold) (map fst (rev close_list)))"
    by (simp add: close_list_loop_eq)
  have run: "gen_cur_weights_rivals E r dr tree_no da =
             Return (?ts, map (\<lambda>t. extract_feats E r t da) ?ts) ?r'"
    using assms by (simp add: gen_cur_weights_rivals_def py_getitem_def Let_def)
  have len: "length ?ts \<le> rival_number r" by simp
  have "set ?ts \<subseteq> set (filter (\<lambda>t. t \<noteq> ?gold) (map fst (rev close_list)))"
    unfolding eq by (rule set_take_subset)
  then have ne: "\<forall>t\<in>set ?ts. t \<noteq> ?gold" by auto
  from run eq len ne show ?thesis by blast
qed

theorem C5_gen_cur_weights_witness:
  "gen_cur_weights_rivals ex_collab (ex_ranker [''gen_cur_weights''] 2 [1, 1]) ex_draws 0 0 =
     Return ([7, 5], [[1, 1], [1, 1]])
       ((ex_ranker [''gen_cur_weights''] 2 [1, 1])
          \<lparr>lists_analyzer := [(0, [(9, 0)], [(0, 1), (5, 2), (0, 3), (7, 4)])]\<rparr>)"
  using C5_gen_cur_weights[of "ex_ranker [''gen_cur_weights''] 2 [1, 1]" "()" 0 ex_draws
      "[(9, 0)]" "[(0, 1), (5, 2), (0, 3), (7, 4)]" ex_collab 0]
  by simp

text \<open>
  Claim C6. With \<^verbatim>\<open>data_portion = 0.0\<close> the training set is empty, and the loop of a
  pass over its instances does nothing and leaves the weight vector as it is. The pass
  itself does not complete: after the loop it divides the error count by the number of
  training trees, and with at least one configured pass \<^verbatim>\<open>train\<close> ends in
  \<^verbatim>\<open>ZeroDivisionError\<close> in its first pass.
\<close>

theorem C6_empty_training_set:
  assumes "init_training E h das ttrees 0 = Inr r"
      and "1 \<le> passes h"
  shows "train_trees r = [] \<and>
         training_loop E (drs 1) [0..<length (train_trees r)] r 0 = Some (Return 0 r) \<and>
         training_iter E (drs 1) r 1 =
           Some (Raise ZeroDivisionError (r\<lparr>evaluator := [], lists_analyzer := []\<rparr>)) \<and>
         train E h drs das ttrees 0 =
           Some (Inr (Raise ZeroDivisionError (r\<lparr>evaluator := [], lists_analyzer := []\<rparr>))) \<and>
         w (r\<lparr>evaluator := [], lists_analyzer := []\<rparr>) = w r"
proof -
  from init_training_Inr(1)[OF assms(1)] have e: "train_trees r = []"
    by (simp add: py_round_0 float64_round_0 py_slice_to_def)
  from init_training_Inr(3)[OF assms(1)] assms(2) have p: "[1..passes r] = 1 # [2..passes r]"
    by (simp add: upto_rec1)
  have "train E h drs das ttrees 0 =
           Some (Inr (Raise ZeroDivisionError (r\<lparr>evaluator := [], lists_analyzer := []\<rparr>)))"
    by (simp add: train_def assms(1) p training_iter_empty[OF e])
  with e training_iter_empty[OF e] show ?thesis by simp
qed

theorem C6_empty_training_set_witness:
  "train ex_collab (PerceptronRanker ex_cfg) ex_all_draws [0, 1, 2, 3] [0, 1, 2, 3] 0 =
     Some (Inr (Raise ZeroDivisionError
       \<lparr>alpha = 1, passes = 5, rival_number = 10, rival_gen_strategy = [''other_inst''],
        candgen_model = None, feats = [''bias: bias''], w = [1, 1], pipeline = (),
        train_trees = [], train_das = [], train_feats = [], candgen = NoAttr,
        sampling_planner = NoAttr, asearch_planner = NoAttr,
        evaluator = [], lists_analyzer = []\<rparr>))"
proof -
  have i: "init_training ex_collab (PerceptronRanker ex_cfg) [0, 1, 2, 3] [0, 1, 2, 3] 0 =
     Inr \<lparr>alpha = 1, passes = 5, rival_number = 10, rival_gen_strategy = [''other_inst''],
        candgen_model = None, feats = [''bias: bias''], w = [1, 1], pipeline = (),
        train_trees = [], train_das = [], train_feats = [], candgen = NoAttr,
        sampling_planner = NoAttr, asearch_planner = NoAttr,
        evaluator = [], lists_analyzer = []\<rparr>"
    by (simp add: init_training_def PerceptronRanker_def ex_cfg_def cfg_get_def py_round_0
          float64_round_0 py_slice_to_def ex_collab_def np_ones_def numeral_2_eq_2)
  have p: "1 \<le> passes (PerceptronRanker ex_cfg)"
    by (simp add: PerceptronRanker_def ex_cfg_def cfg_get_def)
  from C6_empty_training_set[OF i p, of ex_all_draws] show ?thesis by simp
qed

text \<open>
  Claim C7. When the strategies contain \<^verbatim>\<open>gen_cur_weights\<close> and no candidate generator
  model is configured, \<^verbatim>\<open>_init_training\<close> raises before any pass runs, and so does
  \<^verbatim>\<open>train\<close>. The exception is \<^verbatim>\<open>AttributeError\<close>: the attribute \<^verbatim>\<open>candgen\<close> that the
  \<^verbatim>\<open>assert\<close> reads was never assigned. \<^verbatim>\<open>_init_training\<close> raises \<^verbatim>\<open>AssertionError\<close>
  for no input.
\<close>

theorem C7_candgen_never_assigned:
  assumes "''gen_cur_weights'' \<in> set (rival_gen_strategy h)"
      and "candgen_model h = None"
  shows "init_training E h das ttrees data_portion = Inl AttributeError \<and>
         train E h drs das ttrees data_portion = Some (Inl AttributeError) \<and>
         (\<forall>h' das' ttrees' data_portion'.
            init_training E h' das' ttrees' data_portion' \<noteq> Inl AssertionError)"
proof -
  have "init_training E h das ttrees data_portion = Inl AttributeError"
    using assms by (simp add: init_training_def Let_def split: prod.splits)
  then show ?thesis by (simp add: train_def init_training_no_assertion)
qed

theorem C7_candgen_never_assigned_witness:
  "train ex_collab
     (PerceptronRanker (ex_cfg\<lparr>cfg_rival_gen_strategy := Some [''gen_cur_weights'']\<rparr>))
     ex_all_draws [0, 1, 2, 3] [0, 1, 2, 3] 1 = Some (Inl AttributeError)"
  using C7_candgen_never_assigned[of
      "PerceptronRanker (ex_cfg\<lparr>cfg_rival_gen_strategy := Some [''gen_cur_weights'']\<rparr>)"
      ex_collab "[0, 1, 2, 3]" "[0, 1, 2, 3]" 1 ex_all_draws]
  by (simp add: PerceptronRanker_def ex_cfg_def cfg_get_def)

text \<open>
  Claim C9. For every training instance, when the rival generator returns an empty list
  of rival trees, the training step raises \<^verbatim>\<open>ValueError\<close> (the maximum of the empty list
  of rival scores, taken for the best-rival diagnostics). The object it leaves behind is
  the one the rival generator returned, whose weight vector is the one before the step:
  no update and no error count has been applied.
\<close>

theorem C9_no_rivals_raise:
  assumes "tree_no < length (train_trees r)"
      and "tree_no < length (train_feats r)"
      and "get_rival_candidates E r dr tree_no = Some (Return ([], rival_feats) r')"
  shows "training_step E dr tree_no r iter_errs = Some (Raise ValueError r') \<and> w r' = w r"
proof -
  from get_rival_candidates_Return[OF assms(3)] have rf: "rival_feats = []" by auto
  from get_rival_candidates_w(1)[OF assms(3)] have "w r' = w r" by simp
  moreover have "training_step E dr tree_no r iter_errs = Some (Raise ValueError r')"
    using assms rf
    by (simp add: training_step_def py_getitem_def index_of_max_def)
  ultimately show ?thesis by simp
qed

theorem C9_no_rivals_raise_witness:
  "training_step ex_collab (ex_draws\<lparr>searched := ([], [])\<rparr>) 0
       (ex_ranker [''gen_cur_weights''] 2 [1, 1]) 0 =
     Some (Raise ValueError
       ((ex_ranker [''gen_cur_weights''] 2 [1, 1])\<lparr>lists_analyzer := [(0, [], [])]\<rparr>)) \<and>
   w ((ex_ranker [''gen_cur_weights''] 2 [1, 1])\<lparr>lists_analyzer := [(0, [], [])]\<rparr>) = [1, 1]"
  using C9_no_rivals_raise[OF _ _ ex_no_rivals, of "[1, 1]" 0]
  by simp

text \<open>
  Claim C10. Whenever \<^verbatim>\<open>_get_rival_candidates\<close> returns, the list of trees and the list
  of feature vectors have the same length, the \<open>i\<close>-th feature vector is the extraction
  of the \<open>i\<close>-th tree with the dialogue act of the current instance (the vectorizer and
  normalizer are left as they were), and the trees are those of \<^verbatim>\<open>other_inst\<close>, then
  those of \<^verbatim>\<open>random\<close>, then those of \<^verbatim>\<open>gen_cur_weights\<close>, a strategy that is not
  configured giving none. And it does return when the instance index is in range and
  every configured strategy has what it needs: a sample that is not larger than its
  population, a sampling planner that draws enough trees other than the gold tree, an
  A* search planner.
\<close>

theorem C10_rivals_aligned:
  "(\<forall>rival_trees rival_feats r'.
      get_rival_candidates E r dr tree_no = Some (Return (rival_trees, rival_feats) r') \<longrightarrow>
        tree_no < length (train_das r) \<and>
        length rival_feats = length rival_trees \<and>
        (\<forall>i<length rival_trees.
           rival_feats ! i = extract_feats E r (rival_trees ! i) (train_das r ! tree_no)) \<and>
        pipeline r' = pipeline r \<and> feats r' = feats r \<and>
        (\<exists>ts1 ts2 ts3.
           rival_trees = ts1 @ ts2 @ ts3 \<and>
           (if ''other_inst'' \<in> set (rival_gen_strategy r)
            then py_getitems (train_trees r)
                   (rival_idxs (length (train_trees r)) tree_no (sampled dr)) = Inr ts1
            else ts1 = []) \<and>
           (if ''random'' \<in> set (rival_gen_strategy r)
            then random_loop r (generated dr) tree_no 0 [] = Some (Inr ts2)
            else ts2 = []) \<and>
           (if ''gen_cur_weights'' \<in> set (rival_gen_strategy r)
            then ts3 = take (rival_number r)
                         (filter (\<lambda>t. t \<noteq> train_trees r ! tree_no)
                            (map fst (rev (snd (searched dr)))))
            else ts3 = []))) \<and>
   (tree_no < length (train_das r) \<and>
    (''other_inst'' \<in> set (rival_gen_strategy r) \<longrightarrow>
       rival_number r \<le> length (train_trees r) - 1 \<and>
       sample_ok (length (train_trees r) - 1) (rival_number r) (sampled dr)) \<and>
    (''random'' \<in> set (rival_gen_strategy r) \<longrightarrow>
       (\<exists>p. sampling_planner r = Obj p) \<and> tree_no < length (train_trees r) \<and>
       (\<exists>n. rival_number r \<le> length (filter (\<lambda>t. t \<noteq> train_trees r ! tree_no)
                                          (map (generated dr) [0..<n])))) \<and>
    (''gen_cur_weights'' \<in> set (rival_gen_strategy r) \<longrightarrow>
       (\<exists>p. asearch_planner r = Obj p) \<and> tree_no < length (train_trees r))
    \<longrightarrow> (\<exists>rival_trees rival_feats r'.
           get_rival_candidates E r dr tree_no =
             Some (Return (rival_trees, rival_feats) r')))"
proof (intro conjI allI impI)
  fix rival_trees rival_feats r'
  assume a: "get_rival_candidates E r dr tree_no = Some (Return (rival_trees, rival_feats) r')"
  note R = get_rival_candidates_Return[OF a]
  from R show "tree_no < length (train_das r)" by simp
  from R have m: "rival_feats =
      map (\<lambda>t. extract_feats E r t (train_das r ! tree_no)) rival_trees" by blast
  from m show "length rival_feats = length rival_trees" by simp
  from m show "\<And>i. i < length rival_trees \<Longrightarrow>
      rival_feats ! i = extract_feats E r (rival_trees ! i) (train_das r ! tree_no)" by simp
  from get_rival_candidates_frame[OF a] show "pipeline r' = pipeline r" by auto
  from get_rival_candidates_frame[OF a] show "feats r' = feats r" by auto
  from R obtain ts1 ts2 ts3 where t: "rival_trees = ts1 @ ts2 @ ts3"
    and o: "if ''other_inst'' \<in> set (rival_gen_strategy r)
            then rival_number r \<le> length (train_trees r) - 1 \<and>
                 py_getitems (train_trees r)
                   (rival_idxs (length (train_trees r)) tree_no (sampled dr)) = Inr ts1
            else ts1 = []"
    and rn: "if ''random'' \<in> set (rival_gen_strategy r)
            then random_loop r (generated dr) tree_no 0 [] = Some (Inr ts2)
            else ts2 = []"
    and gc: "if ''gen_cur_weights'' \<in> set (rival_gen_strategy r)
            then (\<exists>p. asearch_planner r = Obj p) \<and> tree_no < length (train_trees r) \<and>
                 r' = r\<lparr>lists_analyzer := lists_analyzer r @
                        [(train_trees r ! tree_no, fst (searched dr), snd (searched dr))]\<rparr> \<and>
                 ts3 = take (rival_number r)
                        (filter (\<lambda>t. t \<noteq> train_trees r ! tree_no)
                           (map fst (rev (snd (searched dr)))))
            else r' = r \<and> ts3 = []"
    by blast
  have o': "if ''other_inst'' \<in> set (rival_gen_strategy r)
            then py_getitems (train_trees r)
                   (rival_idxs (length (train_trees r)) tree_no (sampled dr)) = Inr ts1
            else ts1 = []"
    using o by (simp split: if_splits)
  have gc': "if ''gen_cur_weights'' \<in> set (rival_gen_strategy r)
            then ts3 = take (rival_number r)
                        (filter (\<lambda>t. t \<noteq> train_trees r ! tree_no)
                           (map fst (rev (snd (searched dr)))))
            else ts3 = []"
    using gc by (simp split: if_splits)
  from t o' rn gc' show "\<exists>ts1 ts2 ts3.
           rival_trees = ts1 @ ts2 @ ts3 \<and>
           (if ''other_inst'' \<in> set (rival_gen_strategy r)
            then py_getitems (train_trees r)
                   (rival_idxs (length (train_trees r)) tree_no (sampled dr)) = Inr ts1
            else ts1 = []) \<and>
           (if ''random'' \<in> set (rival_gen_strategy r)
            then random_loop r (generated dr) tree_no 0 [] = Some (Inr ts2)
            else ts2 = []) \<and>
           (if ''gen_cur_weights'' \<in> set (rival_gen_strategy r)
            then ts3 = take (rival_number r)
                         (filter (\<lambda>t. t \<noteq> train_trees r ! tree_no)
                            (map fst (rev (snd (searched dr)))))
            else ts3 = [])" by blast
next
  assume "tree_no < length (train_das r) \<and>
    (''other_inst'' \<in> set (rival_gen_strategy r) \<longrightarrow>
       rival_number r \<le> length (train_trees r) - 1 \<and>
       sample_ok (length (train_trees r) - 1) (rival_number r) (sampled dr)) \<and>
    (''random'' \<in> set (rival_gen_strategy r) \<longrightarrow>
       (\<exists>p. sampling_planner r = Obj p) \<and> tree_no < length (train_trees r) \<and>
       (\<exists>n. rival_number r \<le> length (filter (\<lambda>t. t \<noteq> train_trees r ! tree_no)
                                          (map (generated dr) [0..<n])))) \<and>
    (''gen_cur_weights'' \<in> set (rival_gen_strategy r) \<longrightarrow>
       (\<exists>p. asearch_planner r = Obj p) \<and> tree_no < length (train_trees r))"
  then show "\<exists>rival_trees rival_feats r'.
           get_rival_candidates E r dr tree_no =
             Some (Return (rival_trees, rival_feats) r')"
    using get_rival_candidates_returns[of tree_no r dr E] by blast
qed

theorem C10_rivals_aligned_witness:
  "get_rival_candidates ex_collab
       (ex_ranker [''gen_cur_weights'', ''other_inst'', ''random''] 2 [1, 1]) ex_draws 0 =
     Some (Return ([3, 1, 2, 3, 7, 5], [[1, 1], [1, 1], [1, 1], [1, 1], [1, 1], [1, 1]])
       ((ex_ranker [''gen_cur_weights'', ''other_inst'', ''random''] 2 [1, 1])
          \<lparr>lists_analyzer := [(0, [(9, 0)], [(0, 1), (5, 2), (0, 3), (7, 4)])]\<rparr>)) \<and>
   length [[1, 1], [1, 1], [1, 1], [1, 1], [1, 1], [1, 1 :: real]] =
     length [3, 1, 2, 3, 7, 5 :: nat] \<and>
   pipeline ((ex_ranker [''gen_cur_weights'', ''other_inst'', ''random''] 2 [1, 1])
          \<lparr>lists_analyzer := [(0, [(9, 0)], [(0, 1), (5, 2), (0, 3), (7, 4)])]\<rparr>) =
     pipeline (ex_ranker [''gen_cur_weights'', ''other_inst'', ''random''] 2 [1, 1])"
  using C10_rivals_aligned[of ex_collab
      "ex_ranker [''gen_cur_weights'', ''other_inst'', ''random''] 2 [1, 1]" ex_draws 0,
      THEN conjunct1, rule_format, OF ex_all_rivals]
    ex_all_rivals[of "[1, 1]"]
  by simp

end
